theory Spec2Isabelle
  imports Complex_Main "HOL-Library.Monad_Syntax"
begin

section \<open>JavaScript values\<close>

text \<open>
  The program is JavaScript: \<^verbatim>\<open>preprocess.js\<close> in two revisions (called v1 and v2
  below) and \<^verbatim>\<open>transformer.js\<close>. Its data are the values that \<^verbatim>\<open>JSON.parse\<close> produces
  and the numbers the program computes from them.

  A number is a finite value, NaN or one of the two infinities. Finite values are exact
  reals: rounding to the nearest double and the sign of zero are not modelled. The one
  effect of the double format that is modelled is overflow: a result whose magnitude
  reaches \<open>2^1024 - 2^970\<close> (the midpoint above the largest double) is an infinity.
\<close>

datatype jsnum = Fin real | NaN | PInf | NInf

definition overflow_limit :: real where
  "overflow_limit = 2 ^ 1024 - 2 ^ 970"

definition round_num :: "real \<Rightarrow> jsnum" where
  "round_num r = (if overflow_limit \<le> r then PInf
                  else if r \<le> - overflow_limit then NInf else Fin r)"

fun num_neg :: "jsnum \<Rightarrow> jsnum" where
  "num_neg (Fin a) = Fin (- a)"
| "num_neg NaN = NaN"
| "num_neg PInf = NInf"
| "num_neg NInf = PInf"

text \<open>\<^verbatim>\<open>a - b\<close> on numbers.\<close>

fun num_sub :: "jsnum \<Rightarrow> jsnum \<Rightarrow> jsnum" where
  "num_sub NaN b = NaN"
| "num_sub (Fin a) NaN = NaN"
| "num_sub PInf NaN = NaN"
| "num_sub NInf NaN = NaN"
| "num_sub (Fin a) (Fin b) = round_num (a - b)"
| "num_sub (Fin a) PInf = NInf"
| "num_sub (Fin a) NInf = PInf"
| "num_sub PInf PInf = NaN"
| "num_sub PInf (Fin b) = PInf"
| "num_sub PInf NInf = PInf"
| "num_sub NInf NInf = NaN"
| "num_sub NInf (Fin b) = NInf"
| "num_sub NInf PInf = NInf"

text \<open>\<^verbatim>\<open>a / b\<close> on numbers; a zero divisor is the positive zero.\<close>

fun num_div :: "jsnum \<Rightarrow> jsnum \<Rightarrow> jsnum" where
  "num_div NaN b = NaN"
| "num_div (Fin a) NaN = NaN"
| "num_div PInf NaN = NaN"
| "num_div NInf NaN = NaN"
| "num_div (Fin a) (Fin b) =
     (if b = 0 then (if a = 0 then NaN else if 0 < a then PInf else NInf)
      else round_num (a / b))"
| "num_div (Fin a) PInf = Fin 0"
| "num_div (Fin a) NInf = Fin 0"
| "num_div PInf (Fin b) = (if b < 0 then NInf else PInf)"
| "num_div NInf (Fin b) = (if b < 0 then PInf else NInf)"
| "num_div PInf PInf = NaN"
| "num_div PInf NInf = NaN"
| "num_div NInf PInf = NaN"
| "num_div NInf NInf = NaN"

text \<open>\<^verbatim>\<open>Math.abs(a) > c\<close> for a finite constant \<open>c\<close>; false on NaN.\<close>

fun abs_exceeds :: "jsnum \<Rightarrow> real \<Rightarrow> bool" where
  "abs_exceeds (Fin a) c = (c < \<bar>a\<bar>)"
| "abs_exceeds NaN c = False"
| "abs_exceeds PInf c = True"
| "abs_exceeds NInf c = True"

text \<open>\<^verbatim>\<open>Math.max(c, a)\<close> for a finite constant \<open>c\<close>.\<close>

fun math_max :: "real \<Rightarrow> jsnum \<Rightarrow> jsnum" where
  "math_max c (Fin a) = Fin (max c a)"
| "math_max c NaN = NaN"
| "math_max c PInf = PInf"
| "math_max c NInf = Fin c"

text \<open>
  A value is what \<^verbatim>\<open>JSON.parse\<close> gives (null, booleans, numbers, strings, arrays,
  objects), \<^verbatim>\<open>undefined\<close>, or a member that every object inherits from
  \<^verbatim>\<open>Object.prototype\<close>. An object is the list of its own properties; where a name is
  listed twice the first entry is the property. Strings are sequences of 8-bit
  characters: code units above 255 are outside the model.
\<close>

datatype jsval =
    JUndefined
  | JNull
  | JBool bool
  | JNum jsnum
  | JStr string
  | JArr "jsval list"
  | JObj "(string \<times> jsval) list"
  | JBuiltin string

definition nullish :: "jsval \<Rightarrow> bool" where
  "nullish v = (v = JNull \<or> v = JUndefined)"

fun truthy :: "jsval \<Rightarrow> bool" where
  "truthy JUndefined = False"
| "truthy JNull = False"
| "truthy (JBool b) = b"
| "truthy (JNum n) = (n \<noteq> NaN \<and> n \<noteq> Fin 0)"
| "truthy (JStr s) = (s \<noteq> [])"
| "truthy (JArr xs) = True"
| "truthy (JObj ps) = True"
| "truthy (JBuiltin k) = True"

text \<open>\<^verbatim>\<open>a ?? b\<close> and \<^verbatim>\<open>a || b\<close> where evaluating \<open>b\<close> cannot raise.\<close>

definition coalesce :: "jsval \<Rightarrow> jsval \<Rightarrow> jsval" where
  "coalesce a b = (if nullish a then b else a)"

definition js_or :: "jsval \<Rightarrow> jsval \<Rightarrow> jsval" where
  "js_or a b = (if truthy a then a else b)"

text \<open>\<^verbatim>\<open>Number.isFinite(x)\<close>: no coercion, false on anything that is not a number.\<close>

fun number_isFinite :: "jsval \<Rightarrow> bool" where
  "number_isFinite (JNum (Fin a)) = True"
| "number_isFinite v = False"

text \<open>\<^verbatim>\<open>Array.isArray(x)\<close>, and the elements of an array.\<close>

fun Array_isArray :: "jsval \<Rightarrow> bool" where
  "Array_isArray (JArr xs) = True"
| "Array_isArray v = False"

fun elements :: "jsval \<Rightarrow> jsval list" where
  "elements (JArr xs) = xs"
| "elements v = []"

text \<open>\<^verbatim>\<open>Number.isNaN(x)\<close>: no coercion.\<close>

definition number_isNaN :: "jsval \<Rightarrow> bool" where
  "number_isNaN v = (v = JNum NaN)"

subsection \<open>Property reads\<close>

text \<open>
  A read \<^verbatim>\<open>o[k]\<close> and the test \<^verbatim>\<open>k in o\<close> follow the prototype chain, so on a plain
  object they also find the members of \<^verbatim>\<open>Object.prototype\<close>;
  \<^verbatim>\<open>Object.prototype.hasOwnProperty.call(o, k)\<close> does not.
\<close>

definition object_prototype_keys :: "string list" where
  "object_prototype_keys =
     [''constructor'', ''__defineGetter__'', ''__defineSetter__'', ''hasOwnProperty'',
      ''__lookupGetter__'', ''__lookupSetter__'', ''isPrototypeOf'',
      ''propertyIsEnumerable'', ''toString'', ''valueOf'', ''__proto__'',
      ''toLocaleString'']"

definition hasOwnProperty :: "(string \<times> jsval) list \<Rightarrow> string \<Rightarrow> bool" where
  "hasOwnProperty ps k = (map_of ps k \<noteq> None)"

definition js_in :: "string \<Rightarrow> (string \<times> jsval) list \<Rightarrow> bool" where
  "js_in k ps = (hasOwnProperty ps k \<or> k \<in> set object_prototype_keys)"

definition obj_get :: "(string \<times> jsval) list \<Rightarrow> string \<Rightarrow> jsval" where
  "obj_get ps k =
     (case map_of ps k of
        Some v \<Rightarrow> v
      | None \<Rightarrow> if k \<in> set object_prototype_keys then JBuiltin k else JUndefined)"

text \<open>
  \<^verbatim>\<open>raw[k]\<close> where \<open>raw\<close> is not null or undefined. On a primitive or an array the
  names this program reads (the field names written in \<^verbatim>\<open>normalizeToTraining\<close>) are
  neither own properties (\<^verbatim>\<open>length\<close>, an index) nor built-in members, and the read gives
  \<^verbatim>\<open>undefined\<close>; other names on such a value are outside the model.
\<close>

fun get_field :: "jsval \<Rightarrow> string \<Rightarrow> jsval" where
  "get_field (JObj ps) k = obj_get ps k"
| "get_field v k = JUndefined"

subsection \<open>Strings\<close>

text \<open>White space as \<^verbatim>\<open>String.prototype.trim\<close> and \<^verbatim>\<open>Number\<close> see it, below code unit 256.\<close>

definition is_ws :: "char \<Rightarrow> bool" where
  "is_ws c = (c \<in> set [CHR 0x09, CHR 0x0A, CHR 0x0B, CHR 0x0C, CHR 0x0D, CHR 0x20, CHR 0xA0])"

definition strip :: "string \<Rightarrow> string" where
  "strip s = rev (dropWhile is_ws (rev (dropWhile is_ws s)))"

definition is_digit :: "char \<Rightarrow> bool" where
  "is_digit c = (c \<in> set ''0123456789'')"

definition is_letter :: "char \<Rightarrow> bool" where
  "is_letter c = (c \<in> set ''abcdefghijklmnopqrstuvwxyzABCDEFGHIJKLMNOPQRSTUVWXYZ'')"

text \<open>\<^verbatim>\<open>\w\<close> of a regular expression.\<close>

definition is_word :: "char \<Rightarrow> bool" where
  "is_word c = (is_letter c \<or> is_digit c \<or> c = CHR ''_'')"

text \<open>
  \<^verbatim>\<open>toUpperCase\<close> on ASCII text; the program applies it to the text a regular
  expression over ASCII classes matched, or to a literal.
\<close>

definition upper_char :: "char \<Rightarrow> char" where
  "upper_char c =
     (case map_of (zip ''abcdefghijklmnopqrstuvwxyz'' ''ABCDEFGHIJKLMNOPQRSTUVWXYZ'') c of
        Some u \<Rightarrow> u | None \<Rightarrow> c)"

definition toUpperCase :: "string \<Rightarrow> string" where
  "toUpperCase s = map upper_char s"

subsection \<open>Numbers and strings\<close>

text \<open>
  \<^verbatim>\<open>String(n)\<close>: an integer below \<open>10^21\<close> in magnitude prints as its decimal digits.
  How another finite number prints depends on its nearest double, which the model does
  not have: that rendering is a parameter \<open>F\<close> of everything that converts values to
  strings.
\<close>

type_synonym numfmt = "real \<Rightarrow> string"

fun nat_digits :: "nat \<Rightarrow> string" where
  "nat_digits n =
     (if n < 10 then [''0123456789'' ! n]
      else nat_digits (n div 10) @ [''0123456789'' ! (n mod 10)])"

definition int_to_string :: "int \<Rightarrow> string" where
  "int_to_string i = (if i < 0 then CHR ''-'' # nat_digits (nat (- i)) else nat_digits (nat i))"

fun number_to_string :: "numfmt \<Rightarrow> jsnum \<Rightarrow> string" where
  "number_to_string F (Fin a) =
     (if a = of_int \<lfloor>a\<rfloor> \<and> \<bar>a\<bar> < 10 ^ 21 then int_to_string \<lfloor>a\<rfloor> else F a)"
| "number_to_string F NaN = ''NaN''"
| "number_to_string F PInf = ''Infinity''"
| "number_to_string F NInf = ''-Infinity''"

text \<open>
  \<^verbatim>\<open>Number(s)\<close> on a string: white space is trimmed, the empty string is 0, and the rest
  must be a numeric literal: \<^verbatim>\<open>0x\<close>, \<^verbatim>\<open>0o\<close>, \<^verbatim>\<open>0b\<close> digits, or an optionally signed
  \<^verbatim>\<open>Infinity\<close> or decimal literal with optional fraction and exponent.
\<close>

definition digit_of :: "char \<Rightarrow> nat option" where
  "digit_of c =
     map_of (zip ''0123456789abcdefABCDEF''
                 [0, 1, 2, 3, 4, 5, 6, 7, 8, 9, 10, 11, 12, 13, 14, 15, 10, 11, 12, 13, 14, 15]) c"

definition radix_value :: "nat \<Rightarrow> string \<Rightarrow> nat option" where
  "radix_value base ds =
     (if ds \<noteq> [] \<and> list_all (\<lambda>c. case digit_of c of Some d \<Rightarrow> d < base | None \<Rightarrow> False) ds
      then Some (foldl (\<lambda>a c. base * a + the (digit_of c)) 0 ds)
      else None)"

definition signed_integer :: "string \<Rightarrow> int option" where
  "signed_integer r =
     (case r of
        c # d \<Rightarrow>
          if c = CHR ''+'' then map_option int (radix_value 10 d)
          else if c = CHR ''-'' then map_option (\<lambda>n. - int n) (radix_value 10 d)
          else map_option int (radix_value 10 r)
      | [] \<Rightarrow> None)"

definition exponent_part :: "string \<Rightarrow> int option" where
  "exponent_part r =
     (case r of
        [] \<Rightarrow> Some 0
      | c # d \<Rightarrow> if c = CHR ''e'' \<or> c = CHR ''E'' then signed_integer d else None)"

definition scale10 :: "real \<Rightarrow> int \<Rightarrow> real" where
  "scale10 x e = (if 0 \<le> e then x * 10 ^ nat e else x / 10 ^ nat (- e))"

definition decimal_literal :: "string \<Rightarrow> jsnum option" where
  "decimal_literal u =
     (let ip = takeWhile is_digit u;
          r1 = dropWhile is_digit u;
          fp = (case r1 of c # r \<Rightarrow> if c = CHR ''.'' then takeWhile is_digit r else [] | [] \<Rightarrow> []);
          r2 = (case r1 of c # r \<Rightarrow> if c = CHR ''.'' then dropWhile is_digit r else r1 | [] \<Rightarrow> [])
      in if ip = [] \<and> fp = [] then None
         else case exponent_part r2 of
                None \<Rightarrow> None
              | Some e \<Rightarrow>
                  Some (round_num (scale10 (real (the (radix_value 10 (ip @ fp))))
                                           (e - int (length fp)))))"

definition unsigned_decimal :: "string \<Rightarrow> jsnum option" where
  "unsigned_decimal u = (if u = ''Infinity'' then Some PInf else decimal_literal u)"

definition numeric_literal :: "string \<Rightarrow> jsnum option" where
  "numeric_literal t =
     (if take 2 t \<in> set [''0x'', ''0X''] then
        map_option (\<lambda>n. round_num (real n)) (radix_value 16 (drop 2 t))
      else if take 2 t \<in> set [''0o'', ''0O''] then
        map_option (\<lambda>n. round_num (real n)) (radix_value 8 (drop 2 t))
      else if take 2 t \<in> set [''0b'', ''0B''] then
        map_option (\<lambda>n. round_num (real n)) (radix_value 2 (drop 2 t))
      else case t of
             c # r \<Rightarrow>
               if c = CHR ''+'' then unsigned_decimal r
               else if c = CHR ''-'' then map_option num_neg (unsigned_decimal r)
               else unsigned_decimal t
           | [] \<Rightarrow> None)"

definition string_to_number :: "string \<Rightarrow> jsnum" where
  "string_to_number s =
     (let t = strip s in
      if t = [] then Fin 0
      else case numeric_literal t of Some n \<Rightarrow> n | None \<Rightarrow> NaN)"

subsection \<open>Conversions of values\<close>

text \<open>
  \<^verbatim>\<open>String(v)\<close> and \<^verbatim>\<open>Number(v)\<close>. On an object both first look for its \<^verbatim>\<open>toString\<close>
  and \<^verbatim>\<open>valueOf\<close> methods. A plain object inherits them and converts to
  \<^verbatim>\<open>[object Object]\<close>; an object parsed from JSON that has a property named
  \<^verbatim>\<open>toString\<close> of its own hides the inherited method behind a value that cannot be
  called, and the conversion raises a TypeError ("Cannot convert object to primitive
  value"). The result \<open>None\<close> is that TypeError. An array converts by joining the
  conversions of its elements with commas, null and undefined elements as the empty
  string. Built-in members print as Node.js prints them.
\<close>

fun to_string :: "numfmt \<Rightarrow> jsval \<Rightarrow> string option"
  and join_elems :: "numfmt \<Rightarrow> jsval list \<Rightarrow> string option" where
  "to_string F JUndefined = Some ''undefined''"
| "to_string F JNull = Some ''null''"
| "to_string F (JBool b) = Some (if b then ''true'' else ''false'')"
| "to_string F (JNum n) = Some (number_to_string F n)"
| "to_string F (JStr s) = Some s"
| "to_string F (JArr xs) = join_elems F xs"
| "to_string F (JObj ps) =
     (if hasOwnProperty ps ''toString'' then None else Some ''[object Object]'')"
| "to_string F (JBuiltin k) =
     Some (if k = ''__proto__'' then ''[object Object]''
           else if k = ''constructor'' then ''function Object() { [native code] }''
           else ''function '' @ k @ ''() { [native code] }'')"
| "join_elems F [] = Some []"
| "join_elems F (x # xs) = do {
     a \<leftarrow> (if nullish x then Some [] else to_string F x);
     b \<leftarrow> join_elems F xs;
     Some (if xs = [] then a else a @ '','' @ b)
   }"

fun to_number :: "numfmt \<Rightarrow> jsval \<Rightarrow> jsnum option" where
  "to_number F JUndefined = Some NaN"
| "to_number F JNull = Some (Fin 0)"
| "to_number F (JBool b) = Some (Fin (if b then 1 else 0))"
| "to_number F (JNum n) = Some n"
| "to_number F (JStr s) = Some (string_to_number s)"
| "to_number F (JArr xs) = map_option string_to_number (join_elems F xs)"
| "to_number F (JObj ps) = (if hasOwnProperty ps ''toString'' then None else Some NaN)"
| "to_number F (JBuiltin k) = Some NaN"

section \<open>The configuration bundle\<close>

text \<open>
  \<^verbatim>\<open>preprocessing_bundle.json\<close>, read once when the module loads. The bundle has the
  shape the program expects: \<^verbatim>\<open>selected_features\<close> is a list of names,
  \<^verbatim>\<open>label_encoders\<close> an object of encoder objects, an encoder's \<^verbatim>\<open>mapping\<close> an object
  when it is there, \<^verbatim>\<open>scaler.mean_\<close> and \<^verbatim>\<open>scaler.scale_\<close> arrays when they are there.
  What the objects and arrays hold is not constrained: an index, an \<^verbatim>\<open>unknown_index\<close>
  (absent is \<open>None\<close>, an explicit null is \<open>Some JNull\<close>) and a scaler entry are any value.
\<close>

record encoder =
  mapping :: "(string \<times> jsval) list option"
  unknown_index :: "jsval option"

record feature_bundle =
  selected_features :: "string list"
  label_encoders :: "(string \<times> encoder) list"
  scaler_mean :: "jsval list option"
  scaler_scale :: "jsval list option"

datatype error = TypeError | ExpectsArrayOfObjects | PreprocessingMismatch

text \<open>
  \<^verbatim>\<open>LABEL_MAPS[col]\<close> (\<^verbatim>\<open>ENCODERS[col]\<close> in transformer.js), \<open>None\<close> when the read is
  undefined. For a name that \<^verbatim>\<open>Object.prototype\<close> defines and the bundle does not, the
  read is the inherited member: it is truthy and has neither a \<^verbatim>\<open>mapping\<close> nor an
  \<^verbatim>\<open>unknown_index\<close>.
\<close>

definition label_map :: "feature_bundle \<Rightarrow> string \<Rightarrow> encoder option" where
  "label_map b col =
     (case map_of (label_encoders b) col of
        Some e \<Rightarrow> Some e
      | None \<Rightarrow> if col \<in> set object_prototype_keys
                then Some \<lparr>mapping = None, unknown_index = None\<rparr> else None)"

text \<open>An array read \<^verbatim>\<open>a[i]\<close>: undefined past the end.\<close>

definition array_get :: "jsval list \<Rightarrow> nat \<Rightarrow> jsval" where
  "array_get xs i = (if i < length xs then xs ! i else JUndefined)"

section \<open>Helpers of preprocess.js and transformer.js\<close>

text \<open>\<^verbatim>\<open>a ?? e\<close> where evaluating \<open>e\<close> can raise: \<open>e\<close> is only evaluated when \<open>a\<close> is nullish.\<close>

definition or_else :: "jsval \<Rightarrow> jsval option \<Rightarrow> jsval option" where
  "or_else a e = (if nullish a then e else Some a)"

text \<open>\<^verbatim>\<open>const trim = (s) => String(s ?? "").trim();\<close>\<close>

definition trim :: "numfmt \<Rightarrow> jsval \<Rightarrow> string option" where
  "trim F s = map_option strip (to_string F (coalesce s (JStr [])))"

text \<open>
  \<^verbatim>\<open>const isFiniteNum = (x) => typeof x === "number" && Number.isFinite(x);\<close>
  (\<^verbatim>\<open>isNumber\<close> in v1.)
\<close>

definition isFiniteNum :: "jsval \<Rightarrow> bool" where
  "isFiniteNum x = number_isFinite x"

text \<open>
  \<^verbatim>\<open>const toNum = (v) => (isFiniteNum(v) ? v : (Number.isFinite(Number(v)) ? Number(v) : 0));\<close>
  (\<^verbatim>\<open>toNumberOrZero\<close> in v1, with the same body.)
\<close>

definition toNum :: "numfmt \<Rightarrow> jsval \<Rightarrow> jsval option" where
  "toNum F v =
     (if isFiniteNum v then Some v
      else do {
        n \<leftarrow> to_number F v;
        Some (if number_isFinite (JNum n) then JNum n else JNum (Fin 0))
      })"

subsection \<open>The two regular expressions\<close>

text \<open>
  \<^verbatim>\<open>s.match(re)\<close> without the \<^verbatim>\<open>g\<close> flag tries the pattern at each position from the
  left and returns the first match. \<open>first_match m prev s\<close> does that for a pattern \<open>m\<close>
  that is told the character before the position (for \<^verbatim>\<open>\b\<close>).
\<close>

fun first_match :: "(char option \<Rightarrow> string \<Rightarrow> string option) \<Rightarrow> char option \<Rightarrow> string \<Rightarrow> string option" where
  "first_match m prev [] = m prev []"
| "first_match m prev (c # cs) =
     (case m prev (c # cs) of
        Some r \<Rightarrow> Some r
      | None \<Rightarrow> first_match m (Some c) cs)"

text \<open>
  \<^verbatim>\<open>/[A-Z][0-9][0-9A-Z.]*/i\<close> at the head of \<open>s\<close>: a letter, a digit, then the longest
  run of letters, digits and dots.
\<close>

definition icd_tail :: "char \<Rightarrow> bool" where
  "icd_tail c = (is_digit c \<or> is_letter c \<or> c = CHR ''.'')"

fun icd_here :: "char option \<Rightarrow> string \<Rightarrow> string option" where
  "icd_here prev (c # d # rest) =
     (if is_letter c \<and> is_digit d then Some (c # d # takeWhile icd_tail rest) else None)"
| "icd_here prev s = None"

text \<open>
  \<^verbatim>\<open>/\b\d{5}\b/\<close> at the head of \<open>s\<close>. \<^verbatim>\<open>\b\<close> holds between two neighbours of which
  exactly one is a word character; the end of the string counts as a non-word character.
\<close>

definition word_boundary :: "char option \<Rightarrow> char option \<Rightarrow> bool" where
  "word_boundary a b =
     ((case a of Some c \<Rightarrow> is_word c | None \<Rightarrow> False) \<noteq>
      (case b of Some c \<Rightarrow> is_word c | None \<Rightarrow> False))"

definition head_opt :: "string \<Rightarrow> char option" where
  "head_opt s = (case s of [] \<Rightarrow> None | c # cs \<Rightarrow> Some c)"

definition cpt_here :: "char option \<Rightarrow> string \<Rightarrow> string option" where
  "cpt_here prev s =
     (if word_boundary prev (head_opt s) \<and> 5 \<le> length s \<and> list_all is_digit (take 5 s)
         \<and> word_boundary (Some (s ! 4)) (head_opt (drop 5 s))
      then Some (take 5 s) else None)"

text \<open>
  \<^verbatim>\<open>const onlyICD = (s) => (trim(s).match(/[A-Z][0-9][0-9A-Z.]*/i)?.[0] || "Unknown").toUpperCase();\<close>
  A match is never empty, so \<^verbatim>\<open>||\<close> takes the literal exactly when there is no match.
  \<^verbatim>\<open>toUpperCase\<close> is applied to whichever of the two was taken.
\<close>

definition onlyICD :: "numfmt \<Rightarrow> jsval \<Rightarrow> string option" where
  "onlyICD F s = do {
     t \<leftarrow> trim F s;
     Some (toUpperCase (case first_match icd_here None t of
                          Some m \<Rightarrow> m
                        | None \<Rightarrow> ''Unknown''))
   }"

text \<open>\<^verbatim>\<open>const onlyCPT = (s) => (trim(s).match(/\b\d{5}\b/)?.[0] || "00000");\<close>\<close>

definition onlyCPT :: "numfmt \<Rightarrow> jsval \<Rightarrow> string option" where
  "onlyCPT F s = do {
     t \<leftarrow> trim F s;
     Some (case first_match cpt_here None t of
             Some m \<Rightarrow> m
           | None \<Rightarrow> ''00000'')
   }"

section \<open>preprocess.js, second revision (v2)\<close>

subsection \<open>encodeCategorical\<close>

text \<open>
  \<open>None\<close> is a TypeError raised by \<^verbatim>\<open>String(rawValue)\<close>. The first \<^verbatim>\<open>return null\<close> is
  the branch \<open>Some JNull\<close>.
\<close>

definition encodeCategorical :: "numfmt \<Rightarrow> feature_bundle \<Rightarrow> string \<Rightarrow> jsval \<Rightarrow> jsval option" where
  "encodeCategorical F b colName rawValue =
     (case label_map b colName of
        None \<Rightarrow> Some JNull
      | Some entry \<Rightarrow>
          let mapping = (case mapping entry of Some m \<Rightarrow> m | None \<Rightarrow> []);
              unknownIdx = (case unknown_index entry of Some u \<Rightarrow> coalesce u JNull | None \<Rightarrow> JNull)
          in do {
            key \<leftarrow> (if rawValue = JNull \<or> rawValue = JUndefined \<or> rawValue = JStr []
                    then Some ''Unknown'' else to_string F rawValue);
            Some (if hasOwnProperty mapping key then obj_get mapping key
                  else if unknownIdx \<noteq> JNull \<and> unknownIdx \<noteq> JUndefined then unknownIdx
                  else if hasOwnProperty mapping ''__UNK__'' then obj_get mapping ''__UNK__''
                  else JNum (Fin 0))
          })"

subsection \<open>normalizeToTraining\<close>

text \<open>
  An object literal \<^verbatim>\<open>{ k1: e1, k2: e2, ... }\<close>: the property values are evaluated in the
  order they are written, and the first one that raises ends the evaluation.
\<close>

fun object_literal :: "(string \<times> jsval option) list \<Rightarrow> (string \<times> jsval) list option" where
  "object_literal [] = Some []"
| "object_literal (p # ps) = do {
     v \<leftarrow> snd p;
     r \<leftarrow> object_literal ps;
     Some ((fst p, v) # r)
   }"

text \<open>
  \<open>training_fields\<close> is the object literal that \<^verbatim>\<open>normalizeToTraining\<close> returns, given
  the values of its four \<^verbatim>\<open>const\<close> declarations. \<^verbatim>\<open>normalizeToTraining\<close> evaluates the
  declarations, then the literal; a conversion that raises ends the call (\<open>None\<close>), as
  does reading a property of a null or undefined \<open>raw\<close>.
\<close>

definition training_fields :: "numfmt \<Rightarrow> jsval \<Rightarrow> jsval \<Rightarrow> jsval \<Rightarrow> jsval \<Rightarrow> jsval \<Rightarrow> (string \<times> jsval option) list" where
  "training_fields F raw provider diag proc loc =
     [(''Provider'',
        Some (js_or provider (JStr ''Unknown''))),
      (''InscClaimAmtReimbursed'',
        Option.bind
          (or_else (get_field raw ''InscClaimAmtReimbursed'')
             (map_option (\<lambda>s. JStr (filter (\<lambda>c. is_digit c \<or> c = CHR ''.'') s))
                (to_string F (coalesce (get_field raw ''claim_amount'') (JNum (Fin 0))))))
          (toNum F)),
      (''AttendingPhysician'',
        or_else (get_field raw ''AttendingPhysician'')
          (map_option (\<lambda>s. js_or (JStr s) (JStr ''Unknown'')) (trim F (get_field raw ''referring_physician'')))),
      (''OperatingPhysician'',
        Some (coalesce (get_field raw ''OperatingPhysician'') (JStr ''Unknown''))),
      (''OtherPhysician'',
        Some (coalesce (get_field raw ''OtherPhysician'') (JStr ''Unknown''))),
      (''ClmAdmitDiagnosisCode'',
        Some (coalesce (get_field raw ''ClmAdmitDiagnosisCode'') diag)),
      (''DeductibleAmtPaid'',
        toNum F (coalesce (coalesce (get_field raw ''DeductibleAmtPaid'') (get_field raw ''deductible_amount'')) (JNum (Fin 0)))),
      (''DiagnosisGroupCode'',
        Some (js_or loc (JStr ''Unknown''))),
      (''ClmDiagnosisCode_1'',
        Some diag),
      (''ClmDiagnosisCode_2'',
        Some (coalesce (get_field raw ''ClmDiagnosisCode_2'') (JStr ''Unknown''))),
      (''ClmDiagnosisCode_3'',
        Some (coalesce (get_field raw ''ClmDiagnosisCode_3'') (JStr ''Unknown''))),
      (''ClmDiagnosisCode_4'',
        Some (coalesce (get_field raw ''ClmDiagnosisCode_4'') (JStr ''Unknown''))),
      (''ClmDiagnosisCode_5'',
        Some (coalesce (get_field raw ''ClmDiagnosisCode_5'') (JStr ''Unknown''))),
      (''ClmDiagnosisCode_6'',
        Some (coalesce (get_field raw ''ClmDiagnosisCode_6'') (JStr ''Unknown''))),
      (''ClmDiagnosisCode_7'',
        Some (coalesce (get_field raw ''ClmDiagnosisCode_7'') (JStr ''Unknown''))),
      (''ClmDiagnosisCode_8'',
        Some (coalesce (get_field raw ''ClmDiagnosisCode_8'') (JStr ''Unknown''))),
      (''ClmDiagnosisCode_9'',
        Some (coalesce (get_field raw ''ClmDiagnosisCode_9'') (JStr ''Unknown''))),
      (''ClmDiagnosisCode_10'',
        Some (coalesce (get_field raw ''ClmDiagnosisCode_10'') (JStr ''Unknown''))),
      (''ClmProcedureCode_1'',
        Some proc),
      (''ClmProcedureCode_2'',
        Some (coalesce (get_field raw ''ClmProcedureCode_2'') (JStr ''Unknown''))),
      (''ClmProcedureCode_3'',
        Some (coalesce (get_field raw ''ClmProcedureCode_3'') (JStr ''Unknown''))),
      (''ClmProcedureCode_4'',
        Some (coalesce (get_field raw ''ClmProcedureCode_4'') (JStr ''Unknown''))),
      (''ClmProcedureCode_5'',
        Some (coalesce (get_field raw ''ClmProcedureCode_5'') (JStr ''Unknown''))),
      (''Gender'',
        Some (coalesce (get_field raw ''Gender'') (coalesce (get_field raw ''gender'') (JStr ''Unknown'')))),
      (''Race'',
        Some (coalesce (get_field raw ''Race'') (coalesce (get_field raw ''race'') (JStr ''Unknown'')))),
      (''RenalDiseaseIndicator'',
        Some (coalesce (get_field raw ''RenalDiseaseIndicator'') (coalesce (get_field raw ''renal'') (JStr ''Unknown'')))),
      (''State'',
        Some (coalesce (get_field raw ''State'') (coalesce (get_field raw ''state'') (JStr ''Unknown'')))),
      (''County'',
        Some (coalesce (get_field raw ''County'') (coalesce (get_field raw ''county'') (JStr ''Unknown'')))),
      (''NoOfMonths_PartACov'',
        toNum F (coalesce (get_field raw ''NoOfMonths_PartACov'') (JNum (Fin 12)))),
      (''NoOfMonths_PartBCov'',
        toNum F (coalesce (get_field raw ''NoOfMonths_PartBCov'') (JNum (Fin 12)))),
      (''ChronicCond_Alzheimer'',
        toNum F (coalesce (get_field raw ''ChronicCond_Alzheimer'') (JNum (Fin 0)))),
      (''ChronicCond_Heartfailure'',
        toNum F (coalesce (get_field raw ''ChronicCond_Heartfailure'') (JNum (Fin 0)))),
      (''ChronicCond_KidneyDisease'',
        toNum F (coalesce (get_field raw ''ChronicCond_KidneyDisease'') (JNum (Fin 0)))),
      (''ChronicCond_Cancer'',
        toNum F (coalesce (get_field raw ''ChronicCond_Cancer'') (JNum (Fin 0)))),
      (''ChronicCond_ObstrPulmonary'',
        toNum F (coalesce (get_field raw ''ChronicCond_ObstrPulmonary'') (JNum (Fin 0)))),
      (''ChronicCond_Depression'',
        toNum F (coalesce (get_field raw ''ChronicCond_Depression'') (JNum (Fin 0)))),
      (''ChronicCond_Diabetes'',
        toNum F (coalesce (get_field raw ''ChronicCond_Diabetes'') (JNum (Fin 0)))),
      (''ChronicCond_IschemicHeart'',
        toNum F (coalesce (get_field raw ''ChronicCond_IschemicHeart'') (JNum (Fin 0)))),
      (''ChronicCond_Osteoporasis'',
        toNum F (coalesce (get_field raw ''ChronicCond_Osteoporasis'') (JNum (Fin 0)))),
      (''ChronicCond_rheumatoidarthritis'',
        toNum F (coalesce (get_field raw ''ChronicCond_rheumatoidarthritis'') (JNum (Fin 0)))),
      (''ChronicCond_stroke'',
        toNum F (coalesce (get_field raw ''ChronicCond_stroke'') (JNum (Fin 0)))),
      (''IPAnnualReimbursementAmt'',
        toNum F (coalesce (get_field raw ''IPAnnualReimbursementAmt'') (JNum (Fin 0)))),
      (''IPAnnualDeductibleAmt'',
        toNum F (coalesce (get_field raw ''IPAnnualDeductibleAmt'') (JNum (Fin 0)))),
      (''OPAnnualReimbursementAmt'',
        toNum F (coalesce (get_field raw ''OPAnnualReimbursementAmt'') (JNum (Fin 0)))),
      (''OPAnnualDeductibleAmt'',
        toNum F (coalesce (get_field raw ''OPAnnualDeductibleAmt'') (JNum (Fin 0)))),
      (''AgeAtClaim'',
        toNum F (coalesce (coalesce (get_field raw ''AgeAtClaim'') (get_field raw ''patient_age'')) (JNum (Fin 0)))),
      (''ClaimDuration'',
        Option.bind
          (or_else (get_field raw ''ClaimDuration'')
             (map_option (\<lambda>n. JNum (math_max 1 n))
                (to_number F (coalesce (get_field raw ''service_frequency'') (JNum (Fin 1))))))
          (toNum F)),
      (''ClaimsPerProvider'',
        toNum F (coalesce (get_field raw ''ClaimsPerProvider'') (JNum (Fin 1)))),
      (''ClaimsPerBene'',
        toNum F (coalesce (get_field raw ''ClaimsPerBene'') (JNum (Fin 1))))]"

definition normalizeToTraining :: "numfmt \<Rightarrow> jsval \<Rightarrow> (string \<times> jsval) list option" where
  "normalizeToTraining F raw =
     (if nullish raw then None
      else do {
        provider \<leftarrow> or_else (get_field raw ''Provider'')
                      (map_option JStr (trim F (get_field raw ''provider_id'')));
        diag \<leftarrow> or_else (get_field raw ''ClmDiagnosisCode_1'')
                  (map_option JStr (onlyICD F (get_field raw ''diagnosis_code'')));
        proc \<leftarrow> or_else (get_field raw ''ClmProcedureCode_1'')
                  (map_option JStr (onlyCPT F (get_field raw ''procedure_code'')));
        loc \<leftarrow> or_else (get_field raw ''DiagnosisGroupCode'')
                 (map_option JStr (trim F (get_field raw ''service_location'')));
        object_literal (training_fields F raw provider diag proc loc)
      })"

subsection \<open>transformOne and transformBatch\<close>

text \<open>The first loop of \<^verbatim>\<open>transformOne\<close>, over the columns in order.\<close>

fun encode_row :: "numfmt \<Rightarrow> feature_bundle \<Rightarrow> (string \<times> jsval) list \<Rightarrow> string list \<Rightarrow> jsval list option" where
  "encode_row F b normalized [] = Some []"
| "encode_row F b normalized (col # cols) = do {
     v \<leftarrow> (if label_map b col \<noteq> None then encodeCategorical F b col (obj_get normalized col)
           else toNum F (obj_get normalized col));
     vs \<leftarrow> encode_row F b normalized cols;
     Some (v # vs)
   }"

text \<open>
  The second loop, from index \<open>i\<close>: \<^verbatim>\<open>out[i] = (out[i] - m) / s\<close> unless \<open>m\<close> or \<open>s\<close> is
  not a finite number or \<open>s\<close> is 0. The subtraction converts \<^verbatim>\<open>out[i]\<close> to a number.
\<close>

fun num_of :: "jsval \<Rightarrow> jsnum" where
  "num_of (JNum n) = n"
| "num_of v = NaN"

function scale_loop :: "numfmt \<Rightarrow> jsval list \<Rightarrow> jsval list \<Rightarrow> nat \<Rightarrow> jsval list \<Rightarrow> jsval list option" where
  "scale_loop F ms ss i out =
     (if i < length out then
        (let m = array_get ms i; s = array_get ss i in
         if \<not> number_isFinite m \<or> \<not> number_isFinite s \<or> s = JNum (Fin 0)
         then scale_loop F ms ss (Suc i) out
         else case to_number F (out ! i) of
                None \<Rightarrow> None
              | Some x \<Rightarrow>
                  scale_loop F ms ss (Suc i)
                    (out[i := JNum (num_div (num_sub x (num_of m)) (num_of s))]))
      else Some out)"
  by pat_completeness auto
termination
  by (relation "measure (\<lambda>(F, ms, ss, i, out). length out - i)") auto

declare scale_loop.simps [simp del]

definition apply_scaler :: "numfmt \<Rightarrow> feature_bundle \<Rightarrow> jsval list \<Rightarrow> jsval list option" where
  "apply_scaler F b out =
     (case scaler_mean b of
        None \<Rightarrow> Some out
      | Some ms \<Rightarrow>
          (case scaler_scale b of
             None \<Rightarrow> Some out
           | Some ss \<Rightarrow>
               if length ms = length out \<and> length ss = length out
               then scale_loop F ms ss 0 out else Some out))"

text \<open>What \<^verbatim>\<open>transformOne\<close> does after normalization: encode, then scale.\<close>

definition encode_scale :: "numfmt \<Rightarrow> feature_bundle \<Rightarrow> (string \<times> jsval) list \<Rightarrow> jsval list option" where
  "encode_scale F b normalized = do {
     out \<leftarrow> encode_row F b normalized (selected_features b);
     apply_scaler F b out
   }"

definition transformOne :: "numfmt \<Rightarrow> feature_bundle \<Rightarrow> jsval \<Rightarrow> jsval list option" where
  "transformOne F b raw = do {
     normalized \<leftarrow> normalizeToTraining F raw;
     encode_scale F b normalized
   }"

text \<open>\<^verbatim>\<open>rows.map(f)\<close> where \<open>f\<close> can raise: the first raise ends the whole call.\<close>

fun map_rows :: "(jsval \<Rightarrow> 'a option) \<Rightarrow> jsval list \<Rightarrow> 'a list option" where
  "map_rows f [] = Some []"
| "map_rows f (r # rs) = do { v \<leftarrow> f r; vs \<leftarrow> map_rows f rs; Some (v # vs) }"

text \<open>
  \<^verbatim>\<open>if (!Array.isArray(rows)) throw new Error("transformBatch expects an array of objects");\<close>
  \<^verbatim>\<open>return rows.map(transformOne);\<close>
\<close>

definition transformBatch :: "numfmt \<Rightarrow> feature_bundle \<Rightarrow> jsval \<Rightarrow> error + jsval list list" where
  "transformBatch F b rows =
     (if \<not> Array_isArray rows then Inl ExpectsArrayOfObjects
      else case map_rows (transformOne F b) (elements rows) of
             None \<Rightarrow> Inl TypeError
           | Some X \<Rightarrow> Inr X)"

section \<open>preprocess.js, first revision (v1)\<close>

text \<open>
  v1 has no normalization: \<^verbatim>\<open>transformOne\<close> reads the columns from the record it is
  given (\<^verbatim>\<open>raw?.[col]\<close>, undefined on a null or undefined record). Its
  \<^verbatim>\<open>encodeCategorical\<close> has no \<^verbatim>\<open>__UNK__\<close> step; \<^verbatim>\<open>toNumberOrZero\<close> is \<^verbatim>\<open>toNum\<close> under
  another name, and the scaling loop and \<^verbatim>\<open>transformBatch\<close> have the text of v2.
\<close>

definition encodeCategorical_v1 :: "numfmt \<Rightarrow> feature_bundle \<Rightarrow> string \<Rightarrow> jsval \<Rightarrow> jsval option" where
  "encodeCategorical_v1 F b colName rawValue =
     (case label_map b colName of
        None \<Rightarrow> Some JNull
      | Some entry \<Rightarrow>
          let mapping = (case mapping entry of Some m \<Rightarrow> m | None \<Rightarrow> []);
              unknownIdx = (case unknown_index entry of Some u \<Rightarrow> coalesce u JNull | None \<Rightarrow> JNull)
          in do {
            key \<leftarrow> (if rawValue = JNull \<or> rawValue = JUndefined \<or> rawValue = JStr []
                    then Some ''Unknown'' else to_string F rawValue);
            Some (if hasOwnProperty mapping key then obj_get mapping key
                  else if unknownIdx \<noteq> JNull \<and> unknownIdx \<noteq> JUndefined then unknownIdx
                  else JNum (Fin 0))
          })"

definition opt_get :: "jsval \<Rightarrow> string \<Rightarrow> jsval" where
  "opt_get raw k = (if nullish raw then JUndefined else get_field raw k)"

fun encode_row_v1 :: "numfmt \<Rightarrow> feature_bundle \<Rightarrow> jsval \<Rightarrow> string list \<Rightarrow> jsval list option" where
  "encode_row_v1 F b raw [] = Some []"
| "encode_row_v1 F b raw (col # cols) = do {
     v \<leftarrow> (if label_map b col \<noteq> None then encodeCategorical_v1 F b col (opt_get raw col)
           else toNum F (opt_get raw col));
     vs \<leftarrow> encode_row_v1 F b raw cols;
     Some (v # vs)
   }"

definition transformOne_v1 :: "numfmt \<Rightarrow> feature_bundle \<Rightarrow> jsval \<Rightarrow> jsval list option" where
  "transformOne_v1 F b raw = do {
     out \<leftarrow> encode_row_v1 F b raw (selected_features b);
     apply_scaler F b out
   }"

definition transformBatch_v1 :: "numfmt \<Rightarrow> feature_bundle \<Rightarrow> jsval \<Rightarrow> error + jsval list list" where
  "transformBatch_v1 F b rows =
     (if \<not> Array_isArray rows then Inl ExpectsArrayOfObjects
      else case map_rows (transformOne_v1 F b) (elements rows) of
             None \<Rightarrow> Inl TypeError
           | Some X \<Rightarrow> Inr X)"

section \<open>transformer.js\<close>

text \<open>
  \<^verbatim>\<open>encode\<close> tests the mapping with \<^verbatim>\<open>in\<close>, which also finds inherited members, and
  returns \<^verbatim>\<open>enc.unknown_index\<close> whenever the encoder has that property, null included.
\<close>

definition encode :: "numfmt \<Rightarrow> feature_bundle \<Rightarrow> string \<Rightarrow> jsval \<Rightarrow> jsval option" where
  "encode F b col val =
     (case label_map b col of
        None \<Rightarrow> Some (JNum (Fin 0))
      | Some enc \<Rightarrow>
          (case mapping enc of
             None \<Rightarrow> Some (JNum (Fin 0))
           | Some m \<Rightarrow> do {
               key \<leftarrow> (if val = JNull \<or> val = JUndefined \<or> val = JStr []
                       then Some ''Unknown'' else to_string F val);
               Some (if js_in key m then obj_get m key
                     else if unknown_index enc \<noteq> None then the (unknown_index enc)
                     else if js_in ''__UNK__'' m then obj_get m ''__UNK__''
                     else JNum (Fin 0))
             }))"

text \<open>
  \<^verbatim>\<open>MEAN_ = SCALER.mean_ || []\<close> and \<^verbatim>\<open>SCALE_ = SCALER.scale_ || []\<close>; \<^verbatim>\<open>scaleByIndex\<close>
  reads them at \<open>idx\<close> without comparing lengths.
\<close>

definition scaleByIndex :: "numfmt \<Rightarrow> feature_bundle \<Rightarrow> nat \<Rightarrow> jsval \<Rightarrow> jsval option" where
  "scaleByIndex F b idx val =
     (let m = array_get (case scaler_mean b of Some ms \<Rightarrow> ms | None \<Rightarrow> []) idx;
          s = array_get (case scaler_scale b of Some ss \<Rightarrow> ss | None \<Rightarrow> []) idx
      in if m = JNull \<or> s = JNull \<or> s = JNum (Fin 0) \<or> s = JUndefined
         then do { n \<leftarrow> to_number F val; Some (js_or (JNum n) (JNum (Fin 0))) }
         else do {
           x \<leftarrow> to_number F val;
           mn \<leftarrow> to_number F m;
           sn \<leftarrow> to_number F s;
           Some (JNum (num_div (num_sub x mn) sn))
         })"

text \<open>
  \<^verbatim>\<open>normalizeToTraining\<close> of transformer.js: no canonical names are read for the
  identity, code and age fields, and numbers are converted with \<^verbatim>\<open>Number\<close> alone.
\<close>

definition training_fields_tr :: "numfmt \<Rightarrow> jsval \<Rightarrow> (string \<times> jsval option) list" where
  "training_fields_tr F raw =
     [(''Provider'',
        map_option JStr (trim F (get_field raw ''provider_id''))),
      (''InscClaimAmtReimbursed'',
        Option.bind
          (map_option (\<lambda>s. JStr (filter (\<lambda>c. is_digit c \<or> c = CHR ''.'') s))
             (to_string F (js_or (get_field raw ''claim_amount'') (JNum (Fin 0)))))
          (\<lambda>a. map_option JNum (to_number F a))),
      (''AttendingPhysician'',
        map_option (\<lambda>s. js_or (JStr s) (JStr ''Unknown'')) (trim F (get_field raw ''referring_physician''))),
      (''OperatingPhysician'',
        Some (JStr ''Unknown'')),
      (''OtherPhysician'',
        Some (JStr ''Unknown'')),
      (''ClmAdmitDiagnosisCode'',
        map_option JStr (onlyICD F (get_field raw ''diagnosis_code''))),
      (''DeductibleAmtPaid'',
        map_option (\<lambda>n. js_or (JNum n) (JNum (Fin 0))) (to_number F (get_field raw ''deductible_amount''))),
      (''DiagnosisGroupCode'',
        map_option (\<lambda>s. js_or (JStr s) (JStr ''Unknown'')) (trim F (get_field raw ''service_location''))),
      (''ClmDiagnosisCode_1'',
        map_option JStr (onlyICD F (get_field raw ''diagnosis_code''))),
      (''ClmDiagnosisCode_2'',
        Some (JStr ''Unknown'')),
      (''ClmDiagnosisCode_3'',
        Some (JStr ''Unknown'')),
      (''ClmDiagnosisCode_4'',
        Some (JStr ''Unknown'')),
      (''ClmDiagnosisCode_5'',
        Some (JStr ''Unknown'')),
      (''ClmDiagnosisCode_6'',
        Some (JStr ''Unknown'')),
      (''ClmDiagnosisCode_7'',
        Some (JStr ''Unknown'')),
      (''ClmDiagnosisCode_8'',
        Some (JStr ''Unknown'')),
      (''ClmDiagnosisCode_9'',
        Some (JStr ''Unknown'')),
      (''ClmDiagnosisCode_10'',
        Some (JStr ''Unknown'')),
      (''ClmProcedureCode_1'',
        map_option JStr (onlyCPT F (get_field raw ''procedure_code''))),
      (''ClmProcedureCode_2'',
        Some (JStr ''Unknown'')),
      (''ClmProcedureCode_3'',
        Some (JStr ''Unknown'')),
      (''ClmProcedureCode_4'',
        Some (JStr ''Unknown'')),
      (''ClmProcedureCode_5'',
        Some (JStr ''Unknown'')),
      (''Gender'',
        Some (coalesce (get_field raw ''gender'') (JStr ''Unknown''))),
      (''Race'',
        Some (coalesce (get_field raw ''race'') (JStr ''Unknown''))),
      (''RenalDiseaseIndicator'',
        Some (coalesce (get_field raw ''renal'') (JStr ''Unknown''))),
      (''State'',
        Some (coalesce (get_field raw ''state'') (JStr ''Unknown''))),
      (''County'',
        Some (coalesce (get_field raw ''county'') (JStr ''Unknown''))),
      (''NoOfMonths_PartACov'',
        map_option JNum (to_number F (coalesce (get_field raw ''NoOfMonths_PartACov'') (JNum (Fin 12))))),
      (''NoOfMonths_PartBCov'',
        map_option JNum (to_number F (coalesce (get_field raw ''NoOfMonths_PartBCov'') (JNum (Fin 12))))),
      (''ChronicCond_Alzheimer'',
        map_option JNum (to_number F (coalesce (get_field raw ''ChronicCond_Alzheimer'') (JNum (Fin 0))))),
      (''ChronicCond_Heartfailure'',
        map_option JNum (to_number F (coalesce (get_field raw ''ChronicCond_Heartfailure'') (JNum (Fin 0))))),
      (''ChronicCond_KidneyDisease'',
        map_option JNum (to_number F (coalesce (get_field raw ''ChronicCond_KidneyDisease'') (JNum (Fin 0))))),
      (''ChronicCond_Cancer'',
        map_option JNum (to_number F (coalesce (get_field raw ''ChronicCond_Cancer'') (JNum (Fin 0))))),
      (''ChronicCond_ObstrPulmonary'',
        map_option JNum (to_number F (coalesce (get_field raw ''ChronicCond_ObstrPulmonary'') (JNum (Fin 0))))),
      (''ChronicCond_Depression'',
        map_option JNum (to_number F (coalesce (get_field raw ''ChronicCond_Depression'') (JNum (Fin 0))))),
      (''ChronicCond_Diabetes'',
        map_option JNum (to_number F (coalesce (get_field raw ''ChronicCond_Diabetes'') (JNum (Fin 0))))),
      (''ChronicCond_IschemicHeart'',
        map_option JNum (to_number F (coalesce (get_field raw ''ChronicCond_IschemicHeart'') (JNum (Fin 0))))),
      (''ChronicCond_Osteoporasis'',
        map_option JNum (to_number F (coalesce (get_field raw ''ChronicCond_Osteoporasis'') (JNum (Fin 0))))),
      (''ChronicCond_rheumatoidarthritis'',
        map_option JNum (to_number F (coalesce (get_field raw ''ChronicCond_rheumatoidarthritis'') (JNum (Fin 0))))),
      (''ChronicCond_stroke'',
        map_option JNum (to_number F (coalesce (get_field raw ''ChronicCond_stroke'') (JNum (Fin 0))))),
      (''IPAnnualReimbursementAmt'',
        map_option JNum (to_number F (coalesce (get_field raw ''IPAnnualReimbursementAmt'') (JNum (Fin 0))))),
      (''IPAnnualDeductibleAmt'',
        map_option JNum (to_number F (coalesce (get_field raw ''IPAnnualDeductibleAmt'') (JNum (Fin 0))))),
      (''OPAnnualReimbursementAmt'',
        map_option JNum (to_number F (coalesce (get_field raw ''OPAnnualReimbursementAmt'') (JNum (Fin 0))))),
      (''OPAnnualDeductibleAmt'',
        map_option JNum (to_number F (coalesce (get_field raw ''OPAnnualDeductibleAmt'') (JNum (Fin 0))))),
      (''AgeAtClaim'',
        map_option JNum (to_number F (coalesce (get_field raw ''patient_age'') (JNum (Fin 0))))),
      (''ClaimDuration'',
        map_option (\<lambda>n. JNum (math_max 1 n))
          (to_number F (coalesce (get_field raw ''service_frequency'') (JNum (Fin 1))))),
      (''ClaimsPerProvider'',
        map_option JNum (to_number F (coalesce (get_field raw ''ClaimsPerProvider'') (JNum (Fin 1))))),
      (''ClaimsPerBene'',
        map_option JNum (to_number F (coalesce (get_field raw ''ClaimsPerBene'') (JNum (Fin 1)))))]"

definition normalizeToTraining_tr :: "numfmt \<Rightarrow> jsval \<Rightarrow> (string \<times> jsval) list option" where
  "normalizeToTraining_tr F raw =
     (if nullish raw then None else object_literal (training_fields_tr F raw))"

text \<open>\<^verbatim>\<open>FEATURES.map((col, idx) => ...)\<close> from index \<open>idx\<close>.\<close>

fun build_row :: "numfmt \<Rightarrow> feature_bundle \<Rightarrow> (string \<times> jsval) list \<Rightarrow> nat \<Rightarrow> string list \<Rightarrow> jsval list option" where
  "build_row F b named idx [] = Some []"
| "build_row F b named idx (col # cols) = do {
     v \<leftarrow> (if (case label_map b col of Some enc \<Rightarrow> mapping enc \<noteq> None | None \<Rightarrow> False)
           then encode F b col (obj_get named col)
           else scaleByIndex F b idx (obj_get named col));
     vs \<leftarrow> build_row F b named (Suc idx) cols;
     Some (v # vs)
   }"

text \<open>
  The guard of \<^verbatim>\<open>buildVector\<close>:
  \<^verbatim>\<open>row.filter(v => Number.isNaN(v) || Math.abs(v) > 50).length\<close>, and the \<^verbatim>\<open>throw\<close>
  when that count is not 0. \<^verbatim>\<open>Math.abs\<close> converts its argument to a number.
\<close>

definition is_bad :: "numfmt \<Rightarrow> jsval \<Rightarrow> bool option" where
  "is_bad F v =
     (if number_isNaN v then Some True
      else map_option (\<lambda>n. abs_exceeds n 50) (to_number F v))"

fun filter_bad :: "numfmt \<Rightarrow> jsval list \<Rightarrow> jsval list option" where
  "filter_bad F [] = Some []"
| "filter_bad F (v # vs) = do {
     t \<leftarrow> is_bad F v;
     r \<leftarrow> filter_bad F vs;
     Some (if t then v # r else r)
   }"

definition sanity_guard :: "numfmt \<Rightarrow> jsval list \<Rightarrow> error + jsval list" where
  "sanity_guard F row =
     (case filter_bad F row of
        None \<Rightarrow> Inl TypeError
      | Some bad \<Rightarrow> if length bad \<noteq> 0 then Inl PreprocessingMismatch else Inr row)"

text \<open>What \<^verbatim>\<open>buildVector\<close> does after normalization.\<close>

definition encode_scale_tr :: "numfmt \<Rightarrow> feature_bundle \<Rightarrow> (string \<times> jsval) list \<Rightarrow> error + jsval list" where
  "encode_scale_tr F b named =
     (case build_row F b named 0 (selected_features b) of
        None \<Rightarrow> Inl TypeError
      | Some row \<Rightarrow> sanity_guard F row)"

definition buildVector :: "numfmt \<Rightarrow> feature_bundle \<Rightarrow> jsval \<Rightarrow> error + jsval list" where
  "buildVector F b raw =
     (case normalizeToTraining_tr F raw of
        None \<Rightarrow> Inl TypeError
      | Some named \<Rightarrow> encode_scale_tr F b named)"

section \<open>Notions used in the statements\<close>

subsection \<open>Values whose conversions do not raise\<close>

text \<open>
  \<open>plain v\<close>: neither \<open>v\<close> nor an element of \<open>v\<close> (when it is an array) is an object with
  a property named \<^verbatim>\<open>toString\<close> of its own, so \<^verbatim>\<open>String(v)\<close> and \<^verbatim>\<open>Number(v)\<close>
  return. A plain record is an object all of whose property values are plain; a plain
  bundle has plain indices and plain \<^verbatim>\<open>unknown_index\<close> values. Numbers, strings, booleans
  and null are plain.
\<close>

fun plain :: "jsval \<Rightarrow> bool" where
  "plain (JObj ps) = (\<not> hasOwnProperty ps ''toString'')"
| "plain (JArr xs) = list_all plain xs"
| "plain v = True"

definition plain_record :: "jsval \<Rightarrow> bool" where
  "plain_record raw = (case raw of JObj ps \<Rightarrow> list_all (\<lambda>p. plain (snd p)) ps | _ \<Rightarrow> False)"

definition plain_bundle :: "feature_bundle \<Rightarrow> bool" where
  "plain_bundle b =
     list_all (\<lambda>p. (case mapping (snd p) of
                       Some m \<Rightarrow> list_all (\<lambda>q. plain (snd q)) m
                     | None \<Rightarrow> True)
                  \<and> (case unknown_index (snd p) of Some u \<Rightarrow> plain u | None \<Rightarrow> True))
       (label_encoders b)"

text \<open>The result of a conversion that returns; only used on plain values.\<close>

definition string_of :: "numfmt \<Rightarrow> jsval \<Rightarrow> string" where
  "string_of F v = the (to_string F v)"

definition number_of :: "numfmt \<Rightarrow> jsval \<Rightarrow> jsnum" where
  "number_of F v = the (to_number F v)"

definition toNum_of :: "numfmt \<Rightarrow> jsval \<Rightarrow> jsval" where
  "toNum_of F v = the (toNum F v)"

definition trim_of :: "numfmt \<Rightarrow> jsval \<Rightarrow> string" where
  "trim_of F v = the (trim F v)"

definition onlyICD_of :: "numfmt \<Rightarrow> jsval \<Rightarrow> string" where
  "onlyICD_of F v = the (onlyICD F v)"

definition onlyCPT_of :: "numfmt \<Rightarrow> jsval \<Rightarrow> string" where
  "onlyCPT_of F v = the (onlyCPT F v)"

subsection \<open>Categorical lookup\<close>

text \<open>
  The key a value is looked up under, given its string form \<open>s\<close>; the mapping of an
  encoder, empty when it has none; and the \<^verbatim>\<open>unknown_index\<close> an encoder declares, where
  v2 counts an explicit null as not declared.
\<close>

definition lookup_key :: "string \<Rightarrow> jsval \<Rightarrow> string" where
  "lookup_key s v = (if v = JNull \<or> v = JUndefined \<or> v = JStr [] then ''Unknown'' else s)"

definition mapping_of :: "encoder \<Rightarrow> (string \<times> jsval) list" where
  "mapping_of enc = (case mapping enc of Some m \<Rightarrow> m | None \<Rightarrow> [])"

definition declared_unknown :: "encoder \<Rightarrow> jsval option" where
  "declared_unknown enc =
     (case unknown_index enc of
        Some u \<Rightarrow> if nullish u then None else Some u
      | None \<Rightarrow> None)"

subsection \<open>Scaler alignment\<close>

text \<open>
  \<open>scaler_aligned b n\<close>: \<^verbatim>\<open>mean_\<close> and \<^verbatim>\<open>scale_\<close> are both arrays of length \<open>n\<close>.
  \<open>scalable m s\<close>: both are finite numbers and \<open>s\<close> is not 0.
\<close>

definition scaler_aligned :: "feature_bundle \<Rightarrow> nat \<Rightarrow> bool" where
  "scaler_aligned b n =
     (case scaler_mean b of
        Some ms \<Rightarrow> (case scaler_scale b of Some ss \<Rightarrow> length ms = n \<and> length ss = n | None \<Rightarrow> False)
      | None \<Rightarrow> False)"

definition mean_at :: "feature_bundle \<Rightarrow> nat \<Rightarrow> jsval" where
  "mean_at b i = array_get (case scaler_mean b of Some ms \<Rightarrow> ms | None \<Rightarrow> []) i"

definition scale_at :: "feature_bundle \<Rightarrow> nat \<Rightarrow> jsval" where
  "scale_at b i = array_get (case scaler_scale b of Some ss \<Rightarrow> ss | None \<Rightarrow> []) i"

definition scalable :: "jsval \<Rightarrow> jsval \<Rightarrow> bool" where
  "scalable m s = (number_isFinite m \<and> number_isFinite s \<and> s \<noteq> JNum (Fin 0))"

subsection \<open>Implausible entries\<close>

text \<open>An entry that is not finite, or whose magnitude is above 50.\<close>

definition implausible :: "jsnum \<Rightarrow> bool" where
  "implausible n = (case n of Fin a \<Rightarrow> 50 < \<bar>a\<bar> | NaN \<Rightarrow> True | PInf \<Rightarrow> True | NInf \<Rightarrow> True)"

subsection \<open>Positions in a string\<close>

text \<open>
  The character before position \<open>i\<close> of \<open>t\<close>, where \<open>prev\<close> precedes the whole string.
\<close>

definition char_before :: "char option \<Rightarrow> string \<Rightarrow> nat \<Rightarrow> char option" where
  "char_before prev t i = (if i = 0 then prev else Some (t ! (i - 1)))"

text \<open>
  Position \<open>i\<close> of \<open>t\<close> starts a letter followed by a digit: where
  \<^verbatim>\<open>/[A-Z][0-9][0-9A-Z.]*/i\<close> can match.
\<close>

definition icd_at :: "string \<Rightarrow> nat \<Rightarrow> bool" where
  "icd_at t i = (Suc i < length t \<and> is_letter (t ! i) \<and> is_digit (t ! Suc i))"

text \<open>
  Position \<open>i\<close> of \<open>t\<close> starts five digits with no word character (letter, digit or
  underscore) directly before or after them.
\<close>

definition token_at :: "string \<Rightarrow> nat \<Rightarrow> bool" where
  "token_at t i =
     (i + 5 \<le> length t \<and> list_all is_digit (take 5 (drop i t))
      \<and> (i = 0 \<or> \<not> is_word (t ! (i - 1)))
      \<and> (i + 5 = length t \<or> \<not> is_word (t ! (i + 5))))"

text \<open>
  The patterns as the specification words them: a letter and two digits followed by
  letters, digits and dots; and five digits with no digit directly before or after
  them. \<open>substrings t\<close> lists the contiguous pieces of \<open>t\<close>.
\<close>

definition substrings :: "string \<Rightarrow> string list" where
  "substrings t = concat (map (\<lambda>i. map (\<lambda>n. take n (drop i t)) [0..<Suc (length t - i)]) [0..<Suc (length t)])"

definition claimed_icd_pattern :: "string \<Rightarrow> bool" where
  "claimed_icd_pattern w =
     (case w of
        c # d # e # r \<Rightarrow> is_letter c \<and> is_digit d \<and> is_digit e \<and> list_all icd_tail r
      | _ \<Rightarrow> False)"

definition claimed_run_at :: "string \<Rightarrow> nat \<Rightarrow> bool" where
  "claimed_run_at t i =
     (i + 5 \<le> length t \<and> list_all is_digit (take 5 (drop i t))
      \<and> (i = 0 \<or> \<not> is_digit (t ! (i - 1)))
      \<and> (i + 5 = length t \<or> \<not> is_digit (t ! (i + 5))))"

subsection \<open>The training schema and its defaults\<close>

text \<open>The canonical field names, in the order \<^verbatim>\<open>normalizeToTraining\<close> writes them.\<close>

definition canonical_fields :: "string list" where
  "canonical_fields =
     [''Provider'',
      ''InscClaimAmtReimbursed'',
      ''AttendingPhysician'',
      ''OperatingPhysician'',
      ''OtherPhysician'',
      ''ClmAdmitDiagnosisCode'',
      ''DeductibleAmtPaid'',
      ''DiagnosisGroupCode'',
      ''ClmDiagnosisCode_1'',
      ''ClmDiagnosisCode_2'',
      ''ClmDiagnosisCode_3'',
      ''ClmDiagnosisCode_4'',
      ''ClmDiagnosisCode_5'',
      ''ClmDiagnosisCode_6'',
      ''ClmDiagnosisCode_7'',
      ''ClmDiagnosisCode_8'',
      ''ClmDiagnosisCode_9'',
      ''ClmDiagnosisCode_10'',
      ''ClmProcedureCode_1'',
      ''ClmProcedureCode_2'',
      ''ClmProcedureCode_3'',
      ''ClmProcedureCode_4'',
      ''ClmProcedureCode_5'',
      ''Gender'',
      ''Race'',
      ''RenalDiseaseIndicator'',
      ''State'',
      ''County'',
      ''NoOfMonths_PartACov'',
      ''NoOfMonths_PartBCov'',
      ''ChronicCond_Alzheimer'',
      ''ChronicCond_Heartfailure'',
      ''ChronicCond_KidneyDisease'',
      ''ChronicCond_Cancer'',
      ''ChronicCond_ObstrPulmonary'',
      ''ChronicCond_Depression'',
      ''ChronicCond_Diabetes'',
      ''ChronicCond_IschemicHeart'',
      ''ChronicCond_Osteoporasis'',
      ''ChronicCond_rheumatoidarthritis'',
      ''ChronicCond_stroke'',
      ''IPAnnualReimbursementAmt'',
      ''IPAnnualDeductibleAmt'',
      ''OPAnnualReimbursementAmt'',
      ''OPAnnualDeductibleAmt'',
      ''AgeAtClaim'',
      ''ClaimDuration'',
      ''ClaimsPerProvider'',
      ''ClaimsPerBene'']"

text \<open>
  For a canonical field: the names it is read from, whether the empty string counts as
  missing for it, and the value it gets when all of those names are missing. The two
  fields filled by \<^verbatim>\<open>onlyICD\<close> (\<^verbatim>\<open>ClmDiagnosisCode_1\<close>, \<^verbatim>\<open>ClmAdmitDiagnosisCode\<close>) are
  not listed.
\<close>

definition field_defaults :: "(string \<times> string list \<times> bool \<times> jsval) list" where
  "field_defaults =
     [(''Provider'', [''Provider'', ''provider_id''], True, JStr ''Unknown''),
      (''InscClaimAmtReimbursed'', [''InscClaimAmtReimbursed'', ''claim_amount''], True, JNum (Fin 0)),
      (''AttendingPhysician'', [''AttendingPhysician'', ''referring_physician''], False, JStr ''Unknown''),
      (''OperatingPhysician'', [''OperatingPhysician''], False, JStr ''Unknown''),
      (''OtherPhysician'', [''OtherPhysician''], False, JStr ''Unknown''),
      (''DeductibleAmtPaid'', [''DeductibleAmtPaid'', ''deductible_amount''], True, JNum (Fin 0)),
      (''DiagnosisGroupCode'', [''DiagnosisGroupCode'', ''service_location''], True, JStr ''Unknown''),
      (''ClmDiagnosisCode_2'', [''ClmDiagnosisCode_2''], False, JStr ''Unknown''),
      (''ClmDiagnosisCode_3'', [''ClmDiagnosisCode_3''], False, JStr ''Unknown''),
      (''ClmDiagnosisCode_4'', [''ClmDiagnosisCode_4''], False, JStr ''Unknown''),
      (''ClmDiagnosisCode_5'', [''ClmDiagnosisCode_5''], False, JStr ''Unknown''),
      (''ClmDiagnosisCode_6'', [''ClmDiagnosisCode_6''], False, JStr ''Unknown''),
      (''ClmDiagnosisCode_7'', [''ClmDiagnosisCode_7''], False, JStr ''Unknown''),
      (''ClmDiagnosisCode_8'', [''ClmDiagnosisCode_8''], False, JStr ''Unknown''),
      (''ClmDiagnosisCode_9'', [''ClmDiagnosisCode_9''], False, JStr ''Unknown''),
      (''ClmDiagnosisCode_10'', [''ClmDiagnosisCode_10''], False, JStr ''Unknown''),
      (''ClmProcedureCode_1'', [''ClmProcedureCode_1'', ''procedure_code''], False, JStr ''00000''),
      (''ClmProcedureCode_2'', [''ClmProcedureCode_2''], False, JStr ''Unknown''),
      (''ClmProcedureCode_3'', [''ClmProcedureCode_3''], False, JStr ''Unknown''),
      (''ClmProcedureCode_4'', [''ClmProcedureCode_4''], False, JStr ''Unknown''),
      (''ClmProcedureCode_5'', [''ClmProcedureCode_5''], False, JStr ''Unknown''),
      (''Gender'', [''Gender'', ''gender''], False, JStr ''Unknown''),
      (''Race'', [''Race'', ''race''], False, JStr ''Unknown''),
      (''RenalDiseaseIndicator'', [''RenalDiseaseIndicator'', ''renal''], False, JStr ''Unknown''),
      (''State'', [''State'', ''state''], False, JStr ''Unknown''),
      (''County'', [''County'', ''county''], False, JStr ''Unknown''),
      (''NoOfMonths_PartACov'', [''NoOfMonths_PartACov''], False, JNum (Fin 12)),
      (''NoOfMonths_PartBCov'', [''NoOfMonths_PartBCov''], False, JNum (Fin 12)),
      (''ChronicCond_Alzheimer'', [''ChronicCond_Alzheimer''], True, JNum (Fin 0)),
      (''ChronicCond_Heartfailure'', [''ChronicCond_Heartfailure''], True, JNum (Fin 0)),
      (''ChronicCond_KidneyDisease'', [''ChronicCond_KidneyDisease''], True, JNum (Fin 0)),
      (''ChronicCond_Cancer'', [''ChronicCond_Cancer''], True, JNum (Fin 0)),
      (''ChronicCond_ObstrPulmonary'', [''ChronicCond_ObstrPulmonary''], True, JNum (Fin 0)),
      (''ChronicCond_Depression'', [''ChronicCond_Depression''], True, JNum (Fin 0)),
      (''ChronicCond_Diabetes'', [''ChronicCond_Diabetes''], True, JNum (Fin 0)),
      (''ChronicCond_IschemicHeart'', [''ChronicCond_IschemicHeart''], True, JNum (Fin 0)),
      (''ChronicCond_Osteoporasis'', [''ChronicCond_Osteoporasis''], True, JNum (Fin 0)),
      (''ChronicCond_rheumatoidarthritis'', [''ChronicCond_rheumatoidarthritis''], True, JNum (Fin 0)),
      (''ChronicCond_stroke'', [''ChronicCond_stroke''], True, JNum (Fin 0)),
      (''IPAnnualReimbursementAmt'', [''IPAnnualReimbursementAmt''], True, JNum (Fin 0)),
      (''IPAnnualDeductibleAmt'', [''IPAnnualDeductibleAmt''], True, JNum (Fin 0)),
      (''OPAnnualReimbursementAmt'', [''OPAnnualReimbursementAmt''], True, JNum (Fin 0)),
      (''OPAnnualDeductibleAmt'', [''OPAnnualDeductibleAmt''], True, JNum (Fin 0)),
      (''AgeAtClaim'', [''AgeAtClaim'', ''patient_age''], True, JNum (Fin 0)),
      (''ClaimDuration'', [''ClaimDuration'', ''service_frequency''], False, JNum (Fin 1)),
      (''ClaimsPerProvider'', [''ClaimsPerProvider''], False, JNum (Fin 1)),
      (''ClaimsPerBene'', [''ClaimsPerBene''], False, JNum (Fin 1))]"

text \<open>
  A value is missing when it is null or undefined (the property is absent), or the empty
  string where that counts. \<open>defaults_hold raw rec d\<close>: if every source of the field of
  row \<open>d\<close> is missing in \<open>raw\<close>, the field has its default in \<open>rec\<close>.
\<close>

definition missing :: "bool \<Rightarrow> jsval \<Rightarrow> bool" where
  "missing also_empty v = (nullish v \<or> (also_empty \<and> v = JStr []))"

definition defaults_hold :: "jsval \<Rightarrow> (string \<times> jsval) list \<Rightarrow> (string \<times> string list \<times> bool \<times> jsval) \<Rightarrow> bool" where
  "defaults_hold raw rec d =
     (list_all (\<lambda>k. missing (fst (snd (snd d))) (get_field raw k)) (fst (snd d))
        \<longrightarrow> obj_get rec (fst d) = snd (snd (snd d)))"

subsection \<open>Normal configuration\<close>






subsection \<open>Where the three implementations agree\<close>

text \<open>
  No encoder reaches the \<^verbatim>\<open>__UNK__\<close> step, which only v2 and transformer.js have: each
  declares an \<^verbatim>\<open>unknown_index\<close> that is not null, or has no \<^verbatim>\<open>__UNK__\<close> entry.
\<close>

definition sentinel_free :: "feature_bundle \<Rightarrow> bool" where
  "sentinel_free b =
     list_all (\<lambda>p. declared_unknown (snd p) \<noteq> None
                  \<or> \<not> hasOwnProperty (mapping_of (snd p)) ''__UNK__'')
       (label_encoders b)"

text \<open>
  A bundle on which transformer.js treats columns as v2 does: every encoder has a mapping
  and no null \<^verbatim>\<open>unknown_index\<close>; no selected feature has the name of a member of
  \<^verbatim>\<open>Object.prototype\<close>; the scaler arrays are both absent or both as long as the feature
  list; their entries are finite numbers or null; and no categorical column has a scaler
  entry that v2 would use. \<open>own_keys_only\<close>: no categorical value of the record is looked
  up under the name of a member of \<^verbatim>\<open>Object.prototype\<close>.
\<close>

definition finite_or_null :: "jsval \<Rightarrow> bool" where
  "finite_or_null v = (v = JNull \<or> number_isFinite v)"

definition categorical :: "feature_bundle \<Rightarrow> string \<Rightarrow> bool" where
  "categorical b col = (label_map b col \<noteq> None)"

definition tr_compatible :: "feature_bundle \<Rightarrow> bool" where
  "tr_compatible b =
     (list_all (\<lambda>p. mapping (snd p) \<noteq> None \<and> declared_unknown (snd p) = unknown_index (snd p))
        (label_encoders b)
      \<and> list_all (\<lambda>c. c \<notin> set object_prototype_keys) (selected_features b)
      \<and> ((scaler_mean b = None \<and> scaler_scale b = None)
           \<or> scaler_aligned b (length (selected_features b)))
      \<and> list_all finite_or_null (case scaler_mean b of Some ms \<Rightarrow> ms | None \<Rightarrow> [])
      \<and> list_all finite_or_null (case scaler_scale b of Some ss \<Rightarrow> ss | None \<Rightarrow> [])
      \<and> list_all (\<lambda>i. categorical b (selected_features b ! i)
                        \<longrightarrow> \<not> scalable (mean_at b i) (scale_at b i))
            [0..<length (selected_features b)])"

definition own_keys_only :: "numfmt \<Rightarrow> feature_bundle \<Rightarrow> (string \<times> jsval) list \<Rightarrow> bool" where
  "own_keys_only F b rec =
     list_all (\<lambda>col. categorical b col \<longrightarrow>
                 (case to_string F (obj_get rec col) of
                    Some s \<Rightarrow> lookup_key s (obj_get rec col) \<notin> set object_prototype_keys
                  | None \<Rightarrow> True))
       (selected_features b)"

subsection \<open>Sample data\<close>

text \<open>
  A bundle with one categorical column and one scaled numeric column, and a rendering of
  non-integer numbers for the closed examples (none of them prints such a number).
\<close>

definition sample_bundle :: feature_bundle where
  "sample_bundle =
     \<lparr>selected_features = [''Gender'', ''AgeAtClaim''],
      label_encoders =
        [(''Gender'', \<lparr>mapping = Some [(''A'', JNum (Fin 0)), (''B'', JNum (Fin 1))],
                      unknown_index = Some (JNum (Fin 2))\<rparr>)],
      scaler_mean = Some [JNull, JNum (Fin 10)],
      scaler_scale = Some [JNull, JNum (Fin 2)]\<rparr>"

definition sample_encoder :: encoder where
  "sample_encoder =
     \<lparr>mapping = Some [(''A'', JNum (Fin 0)), (''B'', JNum (Fin 1))],
      unknown_index = Some (JNum (Fin 2))\<rparr>"


definition sentinel_bundle :: feature_bundle where
  "sentinel_bundle =
     \<lparr>selected_features = [''Gender''],
      label_encoders = [(''Gender'', \<lparr>mapping = Some [(''__UNK__'', JNum (Fin 7))], unknown_index = None\<rparr>)],
      scaler_mean = None, scaler_scale = None\<rparr>"

definition scaled_index_bundle :: feature_bundle where
  "scaled_index_bundle =
     \<lparr>selected_features = [''Gender''],
      label_encoders = [(''Gender'', sample_encoder)],
      scaler_mean = Some [JNum (Fin 1)], scaler_scale = Some [JNum (Fin 2)]\<rparr>"

definition no_fmt :: numfmt where
  "no_fmt = (\<lambda>x. [])"

section \<open>Properties\<close>

subsection \<open>Evaluation\<close>

lemmas js_eval =
  normalizeToTraining_def training_fields_def transformOne_def encode_scale_def apply_scaler_def transformBatch_def
  encodeCategorical_def label_map_def toNum_def isFiniteNum_def trim_def onlyICD_def onlyCPT_def
  or_else_def coalesce_def js_or_def nullish_def obj_get_def hasOwnProperty_def
  object_prototype_keys_def strip_def is_ws_def is_digit_def is_letter_def is_word_def
  icd_tail_def cpt_here_def word_boundary_def head_opt_def toUpperCase_def upper_char_def
  string_to_number_def numeric_literal_def unsigned_decimal_def decimal_literal_def
  exponent_part_def signed_integer_def radix_value_def digit_of_def scale10_def round_num_def
  overflow_limit_def int_to_string_def array_get_def scale_loop.simps Let_def
  sample_bundle_def no_fmt_def

lemmas js_eval_tr =
  normalizeToTraining_tr_def training_fields_tr_def buildVector_def encode_scale_tr_def sanity_guard_def is_bad_def
  encode_def scaleByIndex_def js_in_def number_isNaN_def

lemmas js_eval_v1 = transformOne_v1_def encodeCategorical_v1_def opt_get_def

subsection \<open>Conversions of plain values return\<close>

lemma to_string_plain_aux:
  shows "plain v \<Longrightarrow> to_string F v \<noteq> None"
    and "list_all plain vs \<Longrightarrow> join_elems F vs \<noteq> None"
  by (induction F v and F vs rule: to_string_join_elems.induct) (auto simp: nullish_def)

lemma to_string_plain: "plain v \<Longrightarrow> to_string F v = Some (string_of F v)"
  using to_string_plain_aux(1)[of v F] by (auto simp: string_of_def)

lemma join_elems_plain: "list_all plain vs \<Longrightarrow> join_elems F vs \<noteq> None"
  using to_string_plain_aux(2)[of vs F] by auto

lemma to_number_plain: "plain v \<Longrightarrow> to_number F v = Some (number_of F v)"
  using join_elems_plain[of _ F] by (cases v) (auto simp: number_of_def)

lemma toNum_plain: "plain v \<Longrightarrow> toNum F v = Some (toNum_of F v)"
  by (simp add: toNum_def to_number_plain toNum_of_def)

lemma toNum_finite: "toNum F v = Some w \<Longrightarrow> number_isFinite w"
  by (auto simp: toNum_def isFiniteNum_def split: if_splits bind_splits)

lemma toNum_the_finite: "plain v \<Longrightarrow> number_isFinite (toNum_of F v)"
  using toNum_plain[of v F] toNum_finite[of F v] by metis

lemma plain_finite: "number_isFinite w \<Longrightarrow> plain w"
  by (cases w rule: number_isFinite.cases) auto

lemma trim_plain: "plain v \<Longrightarrow> trim F v = Some (trim_of F v)"
  using to_string_plain[of "coalesce v (JStr [])" F]
  by (auto simp: trim_def trim_of_def coalesce_def nullish_def split: if_splits)

lemma onlyICD_plain: "plain v \<Longrightarrow> onlyICD F v = Some (onlyICD_of F v)"
  using trim_plain[of v F] by (simp add: onlyICD_def onlyICD_of_def)

lemma onlyCPT_plain: "plain v \<Longrightarrow> onlyCPT F v = Some (onlyCPT_of F v)"
  using trim_plain[of v F] by (simp add: onlyCPT_def onlyCPT_of_def)

lemma plain_obj_get: "list_all (\<lambda>p. plain (snd p)) ps \<Longrightarrow> plain (obj_get ps k)"
  by (auto simp: obj_get_def list_all_iff split: option.splits dest!: map_of_SomeD)

lemma plain_get_field: "plain_record raw \<Longrightarrow> plain (get_field raw k)"
  by (cases raw) (auto simp: plain_record_def plain_obj_get)

lemma plain_coalesce: "plain a \<Longrightarrow> plain c \<Longrightarrow> plain (coalesce a c)"
  by (simp add: coalesce_def)

lemma plain_js_or: "plain a \<Longrightarrow> plain c \<Longrightarrow> plain (js_or a c)"
  by (simp add: js_or_def)

lemma or_else_Some: "or_else a (Some x) = Some (coalesce a x)"
  by (simp add: or_else_def coalesce_def)

lemma plain_record_not_nullish: "plain_record raw \<Longrightarrow> \<not> nullish raw"
  by (cases raw) (auto simp: plain_record_def nullish_def)

lemmas plain_simps = to_string_plain to_number_plain toNum_plain trim_plain onlyICD_plain onlyCPT_plain
  plain_get_field plain_coalesce plain_js_or or_else_Some plain_record_not_nullish
  toNum_the_finite[THEN plain_finite]

subsection \<open>Object literals\<close>

lemma object_literal_all:
  "list_all (\<lambda>p. \<exists>v. snd p = Some v \<and> P v) ps \<Longrightarrow>
   \<exists>r. object_literal ps = Some r \<and> list_all (\<lambda>q. P (snd q)) r \<and> map fst r = map fst ps"
  by (induction ps) auto

lemma object_literal_lookup:
  "object_literal ps = Some r \<Longrightarrow> map_of r k = Option.bind (map_of ps k) (\<lambda>e. e)"
proof (induction ps arbitrary: r)
  case Nil
  then show ?case by simp
next
  case (Cons p ps)
  then obtain v r' where v: "snd p = Some v" "object_literal ps = Some r'" "r = (fst p, v) # r'"
    by (auto split: bind_splits)
  with Cons.IH[OF v(2)] show ?case by (cases p) auto
qed

lemma object_literal_keys: "object_literal ps = Some r \<Longrightarrow> map fst r = map fst ps"
  by (induction ps arbitrary: r) (auto split: bind_splits)

lemma object_literal_values:
  "object_literal ps = Some r \<Longrightarrow> list_all (\<lambda>p. \<forall>v. snd p = Some v \<longrightarrow> P v) ps \<Longrightarrow>
   list_all (\<lambda>q. P (snd q)) r"
  by (induction ps arbitrary: r) (auto split: bind_splits)

subsection \<open>Normalization of a plain record returns\<close>

lemma normalize_plain:
  assumes "plain_record raw"
  shows "\<exists>rec. normalizeToTraining F raw = Some rec \<and> list_all (\<lambda>p. plain (snd p)) rec"
proof -
  have fields: "\<exists>rec. object_literal (training_fields F raw provider diag proc loc) = Some rec
                  \<and> list_all (\<lambda>q. plain (snd q)) rec"
    if "plain provider" "plain diag" "plain proc" "plain loc" for provider diag proc loc
  proof -
    have "list_all (\<lambda>p. \<exists>v. snd p = Some v \<and> plain v)
            (training_fields F raw provider diag proc loc)"
      using assms that by (simp add: training_fields_def plain_simps)
    from object_literal_all[OF this] show ?thesis by blast
  qed
  show ?thesis
    using assms by (simp add: normalizeToTraining_def plain_simps fields)
qed

subsection \<open>The loops of transformOne\<close>

lemma label_map_plain:
  assumes "plain_bundle b" "label_map b col = Some e"
  shows "(case mapping e of Some m \<Rightarrow> list_all (\<lambda>q. plain (snd q)) m | None \<Rightarrow> True)
       \<and> (case unknown_index e of Some u \<Rightarrow> plain u | None \<Rightarrow> True)"
proof (cases "map_of (label_encoders b) col")
  case None
  with assms(2) show ?thesis by (auto simp: label_map_def split: if_splits)
next
  case (Some e')
  then have "(col, e') \<in> set (label_encoders b)" by (rule map_of_SomeD)
  moreover from Some assms(2) have "e' = e" by (simp add: label_map_def)
  ultimately show ?thesis using assms(1) by (auto simp: plain_bundle_def list_all_iff)
qed

lemma encodeCategorical_plain:
  assumes "plain_bundle b" "plain v"
  shows "\<exists>w. encodeCategorical F b col v = Some w \<and> plain w"
proof (cases "label_map b col")
  case None
  then show ?thesis by (simp add: encodeCategorical_def)
next
  case (Some e)
  from label_map_plain[OF assms(1) Some]
  have m: "list_all (\<lambda>q. plain (snd q)) (case mapping e of Some m \<Rightarrow> m | None \<Rightarrow> [])"
    and u: "plain (case unknown_index e of Some u \<Rightarrow> coalesce u JNull | None \<Rightarrow> JNull)"
    by (auto simp: coalesce_def split: option.splits)
  show ?thesis
    using Some m u assms(2)
    by (simp add: encodeCategorical_def Let_def to_string_plain plain_obj_get)
qed

lemma encode_row_length: "encode_row F b rec cols = Some row \<Longrightarrow> length row = length cols"
  by (induction cols arbitrary: row) (auto split: bind_splits)

lemma encode_row_plain:
  assumes "plain_bundle b" "list_all (\<lambda>p. plain (snd p)) rec"
  shows "\<exists>row. encode_row F b rec cols = Some row \<and> list_all plain row"
proof (induction cols)
  case Nil
  show ?case by simp
next
  case (Cons col cols)
  then obtain row where row: "encode_row F b rec cols = Some row" "list_all plain row" by blast
  have pv: "plain (obj_get rec col)" using assms(2) by (rule plain_obj_get)
  obtain w where w: "encodeCategorical F b col (obj_get rec col) = Some w" "plain w"
    using encodeCategorical_plain[OF assms(1) pv] by blast
  show ?case
    using row w pv toNum_the_finite[OF pv, of F, THEN plain_finite]
    by (simp add: toNum_plain)
qed

lemma scale_loop_length: "scale_loop F ms ss i out = Some out' \<Longrightarrow> length out' = length out"
proof (induction F ms ss i out arbitrary: out' rule: scale_loop.induct)
  case (1 F ms ss i out)
  show ?case
  proof (cases "i < length out")
    case False
    with "1.prems" show ?thesis by (simp add: scale_loop.simps[of F ms ss i out])
  next
    case True
    note lt = this
    show ?thesis
    proof (cases "\<not> number_isFinite (array_get ms i) \<or> \<not> number_isFinite (array_get ss i) \<or> array_get ss i = JNum (Fin 0)")
      case True
      with lt "1.prems" have "scale_loop F ms ss (Suc i) out = Some out'"
        by (simp add: Let_def add: scale_loop.simps[of F ms ss i out])
      with "1.IH"(1)[OF lt refl refl True] show ?thesis by simp
    next
      case False
      with lt "1.prems" obtain x where x: "to_number F (out ! i) = Some x"
        and r: "scale_loop F ms ss (Suc i) (out[i := JNum (num_div (num_sub x (num_of (array_get ms i))) (num_of (array_get ss i)))]) = Some out'"
        by (simp add: Let_def add: scale_loop.simps[of F ms ss i out] split: option.splits)
      from "1.IH"(2)[OF lt refl refl False x r] show ?thesis by simp
    qed
  qed
qed

lemma scale_loop_plain:
  "list_all plain out \<Longrightarrow> \<exists>out'. scale_loop F ms ss i out = Some out' \<and> list_all plain out'"
proof (induction F ms ss i out rule: scale_loop.induct)
  case (1 F ms ss i out)
  show ?case
  proof (cases "i < length out")
    case False
    with "1.prems" show ?thesis by (simp add: scale_loop.simps[of F ms ss i out])
  next
    case True
    note lt = this
    show ?thesis
    proof (cases "\<not> number_isFinite (array_get ms i) \<or> \<not> number_isFinite (array_get ss i) \<or> array_get ss i = JNum (Fin 0)")
      case True
      from "1.IH"(1)[OF lt refl refl True "1.prems"] True lt show ?thesis
        by (simp add: Let_def add: scale_loop.simps[of F ms ss i out])
    next
      case False
      from lt "1.prems" have "plain (out ! i)" by (simp add: list_all_length)
      then have x: "to_number F (out ! i) = Some (number_of F (out ! i))" by (rule to_number_plain)
      have "list_all plain (out[i := JNum (num_div (num_sub (number_of F (out ! i)) (num_of (array_get ms i))) (num_of (array_get ss i)))])"
        using "1.prems" lt by (auto simp: list_all_length nth_list_update)
      from "1.IH"(2)[OF lt refl refl False x this] False lt x show ?thesis
        by (simp add: Let_def add: scale_loop.simps[of F ms ss i out])
    qed
  qed
qed

lemma apply_scaler_length: "apply_scaler F b out = Some out' \<Longrightarrow> length out' = length out"
  by (auto simp: apply_scaler_def split: option.splits if_splits dest: scale_loop_length)

lemma apply_scaler_plain: "list_all plain out \<Longrightarrow> \<exists>out'. apply_scaler F b out = Some out'"
  using scale_loop_plain[of out F _ _ 0]
  by (auto simp: apply_scaler_def split: option.splits)

lemma transformOne_length:
  "transformOne F b raw = Some out \<Longrightarrow> length out = length (selected_features b)"
  by (auto simp: transformOne_def encode_scale_def split: bind_splits
      dest!: apply_scaler_length encode_row_length)

lemma transformOne_plain:
  assumes "plain_bundle b" "plain_record raw"
  shows "\<exists>out. transformOne F b raw = Some out"
proof -
  obtain rec where rec: "normalizeToTraining F raw = Some rec" "list_all (\<lambda>p. plain (snd p)) rec"
    using normalize_plain[OF assms(2)] by blast
  obtain row where row: "encode_row F b rec (selected_features b) = Some row" "list_all plain row"
    using encode_row_plain[OF assms(1) rec(2)] by blast
  show ?thesis using rec row apply_scaler_plain[OF row(2)]
    by (simp add: transformOne_def encode_scale_def)
qed

lemma map_rows_length:
  "map_rows f rs = Some X \<Longrightarrow> length X = length rs \<and> (\<forall>i<length rs. f (rs ! i) = Some (X ! i))"
proof (induction rs arbitrary: X)
  case Nil
  then show ?case by simp
next
  case (Cons r rs)
  then obtain v vs where "f r = Some v" "map_rows f rs = Some vs" "X = v # vs"
    by (auto split: bind_splits)
  with Cons.IH[of vs] show ?case by (auto simp: nth_Cons split: nat.splits)
qed

lemma map_rows_total:
  "list_all (\<lambda>r. f r \<noteq> None) rs \<Longrightarrow> \<exists>X. map_rows f rs = Some X"
  by (induction rs) auto


subsection \<open>The shape of a batch result\<close>

text \<open>
  C1, as the program has it. Whenever \<^verbatim>\<open>transformBatch\<close> (v2) returns on an array of
  \<open>n\<close> rows, it returns \<open>n\<close> vectors, each as long as \<^verbatim>\<open>selected_features\<close>. It does
  return when the bundle is plain and every row is a plain record, that is, when no value
  that gets converted is an object with a \<^verbatim>\<open>toString\<close> property of its own.
\<close>

theorem transformBatch_shape:
  shows "(transformBatch F b (JArr rs) = Inr X \<longrightarrow>
            length X = length rs \<and> list_all (\<lambda>v. length v = length (selected_features b)) X)
       \<and> (plain_bundle b \<and> list_all plain_record rs \<longrightarrow>
            (\<exists>Y. transformBatch F b (JArr rs) = Inr Y))"
proof (intro conjI impI)
  assume "transformBatch F b (JArr rs) = Inr X"
  then have m: "map_rows (transformOne F b) rs = Some X"
    by (simp add: transformBatch_def split: option.splits)
  from map_rows_length[OF m] show "length X = length rs" by simp
  from map_rows_length[OF m] transformOne_length[of F b]
  show "list_all (\<lambda>v. length v = length (selected_features b)) X"
    by (auto simp: list_all_length)
next
  assume a: "plain_bundle b \<and> list_all plain_record rs"
  then have "list_all (\<lambda>r. transformOne F b r \<noteq> None) rs"
    using transformOne_plain[of b _ F] by (auto simp: list_all_iff)
  from map_rows_total[OF this] show "\<exists>Y. transformBatch F b (JArr rs) = Inr Y"
    by (auto simp: transformBatch_def)
qed

lemma sample_batch:
  "transformBatch no_fmt sample_bundle
     (JArr [JObj [(''gender'', JStr ''C''), (''patient_age'', JStr ''14'')]])
   = Inr [[JNum (Fin 2), JNum (Fin 2)]]"
  by (simp add: js_eval)

theorem transformBatch_shape_witness:
  "transformBatch no_fmt sample_bundle
     (JArr [JObj [(''gender'', JStr ''C''), (''patient_age'', JStr ''14'')]])
   = Inr [[JNum (Fin 2), JNum (Fin 2)]]
   \<and> plain_bundle sample_bundle
   \<and> list_all plain_record [JObj [(''gender'', JStr ''C''), (''patient_age'', JStr ''14'')]]
   \<and> length [[JNum (Fin 2), JNum (Fin 2)]]
       = length [JObj [(''gender'', JStr ''C''), (''patient_age'', JStr ''14'')]]
   \<and> list_all (\<lambda>v. length v = length (selected_features sample_bundle))
        [[JNum (Fin 2), JNum (Fin 2)]]"
  using transformBatch_shape
    [of no_fmt sample_bundle "[JObj [(''gender'', JStr ''C''), (''patient_age'', JStr ''14'')]]"
        "[[JNum (Fin 2), JNum (Fin 2)]]"]
    sample_batch
  by (simp add: plain_bundle_def plain_record_def sample_bundle_def)

text \<open>
  C1 as stated fails: a record with a field value that has its own \<^verbatim>\<open>toString\<close>
  property makes \<^verbatim>\<open>String\<close> raise inside \<^verbatim>\<open>normalizeToTraining\<close>, and the batch call
  raises instead of returning one vector.
\<close>

theorem transformBatch_raises_counterexample:
  "selected_features sample_bundle \<noteq> []
   \<and> transformBatch no_fmt sample_bundle
       (JArr [JObj [(''provider_id'', JObj [(''toString'', JNum (Fin 1))])]]) = Inl TypeError"
  by (simp add: js_eval)

subsection \<open>Categorical encoding\<close>




subsection \<open>Scaling\<close>

text \<open>The second loop of \<^verbatim>\<open>transformOne\<close>, position by position.\<close>

lemma scale_loop_result:
  assumes "\<forall>j<length out. scalable (array_get ms j) (array_get ss j) \<longrightarrow> plain (out ! j)"
  shows "scale_loop F ms ss i out = Some
           (map (\<lambda>j. if i \<le> j \<and> scalable (array_get ms j) (array_get ss j)
                     then JNum (num_div (num_sub (number_of F (out ! j)) (num_of (array_get ms j)))
                                        (num_of (array_get ss j)))
                     else out ! j) [0..<length out])"
  using assms
proof (induction F ms ss i out rule: scale_loop.induct)
  case (1 F ms ss i out)
  show ?case
  proof (cases "i < length out")
    case False
    then have "map (\<lambda>j. if i \<le> j \<and> scalable (array_get ms j) (array_get ss j)
                     then JNum (num_div (num_sub (number_of F (out ! j)) (num_of (array_get ms j)))
                                        (num_of (array_get ss j)))
                     else out ! j) [0..<length out] = map ((!) out) [0..<length out]"
      by (intro map_cong) auto
    with False show ?thesis by (simp add: scale_loop.simps[of F ms ss i out] map_nth)
  next
    case True
    note lt = this
    show ?thesis
    proof (cases "scalable (array_get ms i) (array_get ss i)")
      case False
      then have c: "\<not> number_isFinite (array_get ms i) \<or> \<not> number_isFinite (array_get ss i)
                    \<or> array_get ss i = JNum (Fin 0)"
        by (auto simp: scalable_def)
      have eq: "map (\<lambda>j. if Suc i \<le> j \<and> scalable (array_get ms j) (array_get ss j)
                     then JNum (num_div (num_sub (number_of F (out ! j)) (num_of (array_get ms j)))
                                        (num_of (array_get ss j)))
                     else out ! j) [0..<length out]
          = map (\<lambda>j. if i \<le> j \<and> scalable (array_get ms j) (array_get ss j)
                     then JNum (num_div (num_sub (number_of F (out ! j)) (num_of (array_get ms j)))
                                        (num_of (array_get ss j)))
                     else out ! j) [0..<length out]"
        using False by (intro map_cong refl) (auto simp: Suc_le_eq le_less)
      have step: "scale_loop F ms ss i out = scale_loop F ms ss (Suc i) out"
        using c lt by (simp add: Let_def scale_loop.simps[of F ms ss i out])
      show ?thesis using "1.IH"(1)[OF lt refl refl c "1.prems"] unfolding step eq .
    next
      case True
      then have c: "\<not> (\<not> number_isFinite (array_get ms i) \<or> \<not> number_isFinite (array_get ss i)
                    \<or> array_get ss i = JNum (Fin 0))"
        by (auto simp: scalable_def)
      define w where "w = JNum (num_div (num_sub (number_of F (out ! i)) (num_of (array_get ms i)))
                                        (num_of (array_get ss i)))"
      from lt "1.prems" True have "plain (out ! i)" by blast
      then have x: "to_number F (out ! i) = Some (number_of F (out ! i))" by (rule to_number_plain)
      have pl: "\<forall>j<length (out[i := w]).
                  scalable (array_get ms j) (array_get ss j) \<longrightarrow> plain (out[i := w] ! j)"
        using "1.prems" lt by (auto simp: nth_list_update w_def)
      have eq: "map (\<lambda>j. if Suc i \<le> j \<and> scalable (array_get ms j) (array_get ss j)
                     then JNum (num_div (num_sub (number_of F (out[i := w] ! j)) (num_of (array_get ms j)))
                                        (num_of (array_get ss j)))
                     else out[i := w] ! j) [0..<length (out[i := w])]
          = map (\<lambda>j. if i \<le> j \<and> scalable (array_get ms j) (array_get ss j)
                     then JNum (num_div (num_sub (number_of F (out ! j)) (num_of (array_get ms j)))
                                        (num_of (array_get ss j)))
                     else out ! j) [0..<length out]"
        using True lt by (intro map_cong) (auto simp: nth_list_update w_def Suc_le_eq le_less)
      have step: "scale_loop F ms ss i out = scale_loop F ms ss (Suc i) (out[i := w])"
        using c lt x by (simp add: Let_def scale_loop.simps[of F ms ss i out] w_def)
      have "scale_loop F ms ss (Suc i) (out[i := w]) = Some
             (map (\<lambda>j. if Suc i \<le> j \<and> scalable (array_get ms j) (array_get ss j)
                     then JNum (num_div (num_sub (number_of F (out[i := w] ! j)) (num_of (array_get ms j)))
                                        (num_of (array_get ss j)))
                     else out[i := w] ! j) [0..<length (out[i := w])])"
        using "1.IH"(2)[OF lt refl refl c x pl[unfolded w_def]] unfolding w_def .
      then show ?thesis unfolding step eq .
    qed
  qed
qed

lemma apply_scaler_result:
  assumes "\<forall>j<length out. scaler_aligned b (length out) \<and> scalable (mean_at b j) (scale_at b j)
             \<longrightarrow> plain (out ! j)"
  shows "apply_scaler F b out = Some
           (map (\<lambda>i. if scaler_aligned b (length out) \<and> scalable (mean_at b i) (scale_at b i)
                     then JNum (num_div (num_sub (number_of F (out ! i)) (num_of (mean_at b i)))
                                        (num_of (scale_at b i)))
                     else out ! i) [0..<length out])"
proof (cases "scaler_aligned b (length out)")
  case False
  then have "apply_scaler F b out = Some out"
    by (auto simp: apply_scaler_def scaler_aligned_def split: option.splits)
  with False show ?thesis by (simp add: map_nth)
next
  case True
  then obtain ms ss where ms: "scaler_mean b = Some ms" "scaler_scale b = Some ss"
      "length ms = length out" "length ss = length out"
    by (auto simp: scaler_aligned_def split: option.splits)
  then have "apply_scaler F b out = scale_loop F ms ss 0 out"
    by (simp add: apply_scaler_def)
  moreover have "\<forall>j<length out. scalable (array_get ms j) (array_get ss j) \<longrightarrow> plain (out ! j)"
    using assms True ms by (simp add: mean_at_def scale_at_def)
  ultimately show ?thesis using True ms
    by (simp add: scale_loop_result mean_at_def scale_at_def)
qed




subsection \<open>The guard of buildVector\<close>

lemma is_bad_number: "is_bad F (JNum n) = Some (implausible n)"
  by (cases n) (simp_all add: is_bad_def number_isNaN_def implausible_def)







text \<open>An unscaled amount caught by the guard, through the whole of \<^verbatim>\<open>buildVector\<close>.\<close>

lemma buildVector_sample_mismatch:
  "buildVector no_fmt sample_bundle
     (JObj [(''gender'', JStr ''C''), (''patient_age'', JStr ''1400'')])
   = Inl PreprocessingMismatch"
  by (simp add: js_eval js_eval_tr)

subsection \<open>The first match of a pattern\<close>

lemma char_before_Cons: "char_before (Some c) cs k = char_before prev (c # cs) (Suc k)"
  by (cases k) (simp_all add: char_before_def)

lemma first_match_None_iff:
  "first_match m prev t = None \<longleftrightarrow> (\<forall>i\<le>length t. m (char_before prev t i) (drop i t) = None)"
proof (induction t arbitrary: prev)
  case Nil
  show ?case by (simp add: char_before_def)
next
  case (Cons c cs)
  have "(\<forall>i\<le>length (c # cs). m (char_before prev (c # cs) i) (drop i (c # cs)) = None)
      \<longleftrightarrow> m prev (c # cs) = None \<and> (\<forall>k\<le>length cs. m (char_before (Some c) cs k) (drop k cs) = None)"
    (is "?L \<longleftrightarrow> ?R")
  proof
    assume l: ?L
    from l[rule_format, of 0] have "m prev (c # cs) = None" by (simp add: char_before_def)
    moreover have "m (char_before (Some c) cs k) (drop k cs) = None" if "k \<le> length cs" for k
      using l[rule_format, of "Suc k"] that by (simp add: char_before_Cons[of c cs k prev])
    ultimately show ?R by blast
  next
    assume r: ?R
    show ?L
    proof (intro allI impI)
      fix i assume "i \<le> length (c # cs)"
      then show "m (char_before prev (c # cs) i) (drop i (c # cs)) = None"
      proof (cases i)
        case 0
        with r show ?thesis by (simp add: char_before_def)
      next
        case (Suc k)
        assume "i \<le> length (c # cs)"
        with Suc have "k \<le> length cs" by simp
        with r have "m (char_before (Some c) cs k) (drop k cs) = None" by blast
        with Suc show ?thesis by (simp add: char_before_Cons[of c cs k prev])
      qed
    qed
  qed
  with Cons.IH[of "Some c"] show ?case by (auto split: option.splits)
qed

lemma first_match_first:
  assumes "i \<le> length t" "m (char_before prev t i) (drop i t) = Some r"
    and "\<forall>j<i. m (char_before prev t j) (drop j t) = None"
  shows "first_match m prev t = Some r"
  using assms
proof (induction t arbitrary: prev i)
  case Nil
  then show ?case by (simp add: char_before_def)
next
  case (Cons c cs)
  show ?case
  proof (cases i)
    case 0
    with Cons.prems show ?thesis by (simp add: char_before_def)
  next
    case (Suc k)
    with Cons.prems(3) have h: "m prev (c # cs) = None"
      by (auto simp: char_before_def dest: spec[of _ 0])
    have "first_match m (Some c) cs = Some r"
    proof (rule Cons.IH[of k])
      show "k \<le> length cs" using Cons.prems(1) Suc by simp
      show "m (char_before (Some c) cs k) (drop k cs) = Some r"
        using Cons.prems(2) Suc by (simp add: char_before_Cons[of c cs k prev])
      show "\<forall>j<k. m (char_before (Some c) cs j) (drop j cs) = None"
      proof (intro allI impI)
        fix j assume "j < k"
        then have "Suc j < i" using Suc by simp
        with Cons.prems(3) have "m (char_before prev (c # cs) (Suc j)) (drop (Suc j) (c # cs)) = None"
          by blast
        then show "m (char_before (Some c) cs j) (drop j cs) = None"
          by (simp add: char_before_Cons[of c cs j prev])
      qed
    qed
    with h show ?thesis by simp
  qed
qed

subsection \<open>Diagnosis codes\<close>

lemma icd_here_iff:
  "i \<le> length t \<Longrightarrow>
   icd_here p (drop i t) = (if icd_at t i then Some (take 2 (drop i t) @ takeWhile icd_tail (drop (i + 2) t)) else None)"
proof -
  assume "i \<le> length t"
  show ?thesis
  proof (cases "drop i t")
    case Nil
    then show ?thesis by (simp add: icd_at_def)
  next
    case (Cons c u)
    note c = this
    then have i: "i < length t" by (cases "i < length t") auto
    have ti: "t ! i = c" using c i by (metis nth_via_drop)
    show ?thesis
    proof (cases u)
      case Nil
      with c have "length (drop i t) = 1" by simp
      then have "length t = Suc i" using i by simp
      with c Nil show ?thesis by (simp add: icd_at_def)
    next
      case (Cons d rest)
      with c have du: "drop (Suc i) t = d # rest"
        by (metis drop_Suc list.sel(3) tl_drop)
      then have si: "Suc i < length t" by (cases "Suc i < length t") auto
      have tsi: "t ! Suc i = d" using du si by (metis nth_via_drop)
      have dr: "drop (i + 2) t = rest"
        using du by (metis add_2_eq_Suc' drop_Suc list.sel(3) tl_drop)
      show ?thesis using c Cons si ti tsi dr by (simp add: icd_at_def)
    qed
  qed
qed

text \<open>
  C5, as the program has it. \<^verbatim>\<open>onlyICD\<close> returns, in upper case, the first piece of the
  trimmed input that consists of one letter, one digit and then as many letters, digits
  and dots as follow. The input "Diag: e11.9 present" gives "E11.9". (What it returns
  when there is no such piece is not part of this statement.)
\<close>

theorem onlyICD_first_code:
  "(trim F v = Some t \<and> icd_at t i \<and> (\<forall>j<i. \<not> icd_at t j) \<longrightarrow>
      onlyICD F v = Some (toUpperCase (take 2 (drop i t) @ takeWhile icd_tail (drop (i + 2) t))))
   \<and> onlyICD F (JStr ''Diag: e11.9 present'') = Some ''E11.9''"
proof (intro conjI impI)
  assume a: "trim F v = Some t \<and> icd_at t i \<and> (\<forall>j<i. \<not> icd_at t j)"
  then have i: "i \<le> length t" by (simp add: icd_at_def)
  have "first_match icd_here None t = Some (take 2 (drop i t) @ takeWhile icd_tail (drop (i + 2) t))"
  proof (rule first_match_first[OF i])
    show "icd_here (char_before None t i) (drop i t)
            = Some (take 2 (drop i t) @ takeWhile icd_tail (drop (i + 2) t))"
      using a by (simp add: icd_here_iff[OF i])
    show "\<forall>j<i. icd_here (char_before None t j) (drop j t) = None"
      using a i by (simp add: icd_here_iff)
  qed
  with a show "onlyICD F v = Some (toUpperCase (take 2 (drop i t) @ takeWhile icd_tail (drop (i + 2) t)))"
    by (simp add: onlyICD_def)
next
  show "onlyICD F (JStr ''Diag: e11.9 present'') = Some ''E11.9''"
    by (simp add: js_eval)
qed

theorem onlyICD_first_code_witness:
  "trim no_fmt (JStr '' see e11.9 '') = Some ''see e11.9''
   \<and> icd_at ''see e11.9'' 4 \<and> \<not> icd_at ''see e11.9'' 0 \<and> \<not> icd_at ''see e11.9'' 1
   \<and> \<not> icd_at ''see e11.9'' 2 \<and> \<not> icd_at ''see e11.9'' 3
   \<and> onlyICD no_fmt (JStr '' see e11.9 '') = Some ''E11.9''"
proof -
  have t: "trim no_fmt (JStr '' see e11.9 '') = Some ''see e11.9''"
    by (simp add: js_eval)
  have at: "icd_at ''see e11.9'' 4" by (simp add: icd_at_def is_letter_def is_digit_def)
  have n: "\<not> icd_at ''see e11.9'' 0" "\<not> icd_at ''see e11.9'' 1" "\<not> icd_at ''see e11.9'' 2"
    "\<not> icd_at ''see e11.9'' 3"
    by (simp_all add: icd_at_def is_letter_def is_digit_def)
  have first: "\<forall>j<4. \<not> icd_at ''see e11.9'' j"
  proof (intro allI impI)
    fix j :: nat assume "j < 4"
    then have "j = 0 \<or> j = 1 \<or> j = 2 \<or> j = 3" by arith
    with n show "\<not> icd_at ''see e11.9'' j" by auto
  qed
  from onlyICD_first_code[of no_fmt "JStr '' see e11.9 ''" "''see e11.9''" 4] t at first
  have "onlyICD no_fmt (JStr '' see e11.9 '') = Some ''E11.9''"
    by (simp add: toUpperCase_def upper_char_def icd_tail_def is_digit_def is_letter_def)
  with t at n show ?thesis by simp
qed

text \<open>
  C5 as stated fails: the pattern asks for one digit after the letter, not two. No piece
  of "A1" is a letter and two digits, yet the result is "A1", not "Unknown".
\<close>

theorem onlyICD_two_digits_counterexample:
  "\<not> list_ex claimed_icd_pattern (substrings ''A1'')
   \<and> onlyICD no_fmt (JStr ''A1'') = Some ''A1''"
  by (simp add: js_eval substrings_def claimed_icd_pattern_def upt_rec)

text \<open>
  Without a match the literal "Unknown" goes through \<^verbatim>\<open>toUpperCase\<close> like a match
  would: the result is "UNKNOWN".
\<close>

lemma onlyICD_no_match:
  assumes "trim F v = Some t" "\<forall>i. \<not> icd_at t i"
  shows "onlyICD F v = Some ''UNKNOWN''"
proof -
  have "first_match icd_here None t = None"
    using assms(2) by (simp add: first_match_None_iff icd_here_iff)
  with assms(1) show ?thesis by (simp add: onlyICD_def toUpperCase_def upper_char_def)
qed

subsection \<open>Procedure codes\<close>

lemma cpt_here_iff:
  assumes "i \<le> length t"
  shows "cpt_here (char_before None t i) (drop i t)
           = (if token_at t i then Some (take 5 (drop i t)) else None)"
proof (cases "i + 5 \<le> length t \<and> list_all is_digit (take 5 (drop i t))")
  case False
  then show ?thesis by (auto simp: cpt_here_def token_at_def)
next
  case True
  then have len: "i + 5 \<le> length t" and dig: "list_all is_digit (take 5 (drop i t))" by auto
  from len have i: "i < length t" by simp
  have h0: "head_opt (drop i t) = Some (t ! i)"
    using i by (simp add: head_opt_def Cons_nth_drop_Suc[symmetric])
  have d0: "is_digit (t ! i)"
    using dig len by (simp add: list_all_length) (metis add.right_neutral zero_less_numeral)
  have d4: "is_digit (drop i t ! 4)"
    using dig len by (simp add: list_all_length)
  have w0: "is_word (t ! i)" using d0 by (simp add: is_word_def)
  have w4: "is_word (drop i t ! 4)" using d4 by (simp add: is_word_def)
  have b0: "word_boundary (char_before None t i) (head_opt (drop i t)) \<longleftrightarrow> (i = 0 \<or> \<not> is_word (t ! (i - 1)))"
    using w0 by (auto simp: word_boundary_def char_before_def h0)
  have h5: "head_opt (drop 5 (drop i t)) = (if i + 5 = length t then None else Some (t ! (i + 5)))"
  proof (cases "i + 5 = length t")
    case True
    then show ?thesis by (simp add: head_opt_def)
  next
    case False
    with len have lt: "i + 5 < length t" by simp
    have "drop 5 (drop i t) = drop (i + 5) t" by (simp add: add.commute)
    also have "\<dots> = t ! (i + 5) # drop (Suc (i + 5)) t"
      using lt by (rule Cons_nth_drop_Suc[symmetric])
    finally show ?thesis using False by (simp add: head_opt_def)
  qed
  have b5: "word_boundary (Some (drop i t ! 4)) (head_opt (drop 5 (drop i t)))
            \<longleftrightarrow> (i + 5 = length t \<or> \<not> is_word (t ! (i + 5)))"
    using w4 by (auto simp: word_boundary_def h5 simp del: drop_drop)
  have l5: "5 \<le> length (drop i t)" using len by simp
  have "cpt_here (char_before None t i) (drop i t)
          = (if (i = 0 \<or> \<not> is_word (t ! (i - 1))) \<and> (i + 5 = length t \<or> \<not> is_word (t ! (i + 5)))
             then Some (take 5 (drop i t)) else None)"
    unfolding cpt_here_def b0 b5 using l5 dig by (simp only: simp_thms)
  also have "\<dots> = (if token_at t i then Some (take 5 (drop i t)) else None)"
    using len dig by (simp add: token_at_def)
  finally show ?thesis .
qed

text \<open>
  C6, as the program has it. \<^verbatim>\<open>onlyCPT\<close> returns the first five digits of the trimmed
  input that have no word character (letter, digit or underscore) directly before or
  after them, and "00000" when there are none. The input "cpt 99213 billed" gives
  "99213".
\<close>

theorem onlyCPT_first_token:
  "(trim F v = Some t \<and> token_at t i \<and> (\<forall>j<i. \<not> token_at t j) \<longrightarrow>
      onlyCPT F v = Some (take 5 (drop i t)))
   \<and> (trim F v = Some t \<and> (\<forall>j. \<not> token_at t j) \<longrightarrow> onlyCPT F v = Some ''00000'')
   \<and> onlyCPT F (JStr ''cpt 99213 billed'') = Some ''99213''"
proof (intro conjI impI)
  assume a: "trim F v = Some t \<and> token_at t i \<and> (\<forall>j<i. \<not> token_at t j)"
  then have i: "i \<le> length t" by (simp add: token_at_def)
  have "first_match cpt_here None t = Some (take 5 (drop i t))"
  proof (rule first_match_first[OF i])
    show "cpt_here (char_before None t i) (drop i t) = Some (take 5 (drop i t))"
      using a by (simp add: cpt_here_iff[OF i])
    show "\<forall>j<i. cpt_here (char_before None t j) (drop j t) = None"
      using a i by (simp add: cpt_here_iff)
  qed
  with a show "onlyCPT F v = Some (take 5 (drop i t))" by (simp add: onlyCPT_def)
next
  assume a: "trim F v = Some t \<and> (\<forall>j. \<not> token_at t j)"
  then have "first_match cpt_here None t = None"
    by (simp add: first_match_None_iff cpt_here_iff)
  with a show "onlyCPT F v = Some ''00000''" by (simp add: onlyCPT_def)
next
  show "onlyCPT F (JStr ''cpt 99213 billed'') = Some ''99213''"
    by (simp add: js_eval)
qed

theorem onlyCPT_first_token_witness:
  "trim no_fmt (JStr ''a12345 99213'') = Some ''a12345 99213''
   \<and> token_at ''a12345 99213'' 7
   \<and> \<not> token_at ''a12345 99213'' 0 \<and> \<not> token_at ''a12345 99213'' 1 \<and> \<not> token_at ''a12345 99213'' 2
   \<and> \<not> token_at ''a12345 99213'' 3 \<and> \<not> token_at ''a12345 99213'' 4 \<and> \<not> token_at ''a12345 99213'' 5
   \<and> \<not> token_at ''a12345 99213'' 6
   \<and> onlyCPT no_fmt (JStr ''a12345 99213'') = Some ''99213''"
proof -
  have t: "trim no_fmt (JStr ''a12345 99213'') = Some ''a12345 99213''"
    by (simp add: js_eval)
  have at: "token_at ''a12345 99213'' 7"
    by (simp add: token_at_def is_word_def is_letter_def is_digit_def)
  have n: "\<not> token_at ''a12345 99213'' 0" "\<not> token_at ''a12345 99213'' 1"
    "\<not> token_at ''a12345 99213'' 2" "\<not> token_at ''a12345 99213'' 3"
    "\<not> token_at ''a12345 99213'' 4" "\<not> token_at ''a12345 99213'' 5"
    "\<not> token_at ''a12345 99213'' 6"
    by (simp_all add: token_at_def is_word_def is_letter_def is_digit_def)
  have first: "\<forall>j<7. \<not> token_at ''a12345 99213'' j"
  proof (intro allI impI)
    fix j :: nat assume "j < 7"
    then have "j = 0 \<or> j = 1 \<or> j = 2 \<or> j = 3 \<or> j = 4 \<or> j = 5 \<or> j = 6" by arith
    with n show "\<not> token_at ''a12345 99213'' j" by auto
  qed
  from onlyCPT_first_token[of no_fmt "JStr ''a12345 99213''" "''a12345 99213''" 7] t at first
  have "onlyCPT no_fmt (JStr ''a12345 99213'') = Some ''99213''" by simp
  with t at n show ?thesis by simp
qed

text \<open>
  C6 as stated fails: in "a12345" the five digits are bounded by a non-digit and the end
  of the string, but the letter before them is a word character, so \<^verbatim>\<open>\b\<close> does not
  hold there and the result is "00000".
\<close>

theorem onlyCPT_digit_bounds_counterexample:
  "claimed_run_at ''a12345'' 1 \<and> \<not> claimed_run_at ''a12345'' 0
   \<and> onlyCPT no_fmt (JStr ''a12345'') = Some ''00000''"
  by (simp add: js_eval claimed_run_at_def)

subsection \<open>Normalization\<close>

lemma toNum_not_nullish: "toNum F x = Some v \<Longrightarrow> \<not> nullish v"
  by (auto simp: toNum_def isFiniteNum_def nullish_def split: if_splits bind_splits)

lemma bind_toNum_not_nullish: "Option.bind x (toNum F) = Some v \<Longrightarrow> \<not> nullish v"
  by (auto split: bind_splits dest: toNum_not_nullish)

lemma js_or_not_nullish: "\<not> nullish d \<Longrightarrow> \<not> nullish (js_or a d)"
  by (cases a) (auto simp: js_or_def nullish_def)

lemma coalesce_not_nullish: "\<not> nullish d \<Longrightarrow> \<not> nullish (coalesce a d)"
  by (simp add: coalesce_def)

lemma or_else_not_nullish:
  "or_else a e = Some v \<Longrightarrow> (\<And>w. e = Some w \<Longrightarrow> \<not> nullish w) \<Longrightarrow> \<not> nullish v"
  by (auto simp: or_else_def split: if_splits)

lemma or_else_JStr_not_nullish: "or_else a (map_option JStr s) = Some v \<Longrightarrow> \<not> nullish v"
  by (erule or_else_not_nullish) (auto simp: nullish_def)

lemma or_else_js_or_not_nullish:
  "or_else a (map_option (\<lambda>s. js_or (JStr s) (JStr ''Unknown'')) t) = Some v \<Longrightarrow> \<not> nullish v"
  by (erule or_else_not_nullish) (auto simp: js_or_def nullish_def split: if_splits)

lemma training_fields_keys:
  "map fst (training_fields F raw provider diag proc loc) = canonical_fields"
  by (simp add: training_fields_def canonical_fields_def)

lemma training_fields_defined:
  assumes "\<not> nullish diag" "\<not> nullish proc"
  shows "list_all (\<lambda>p. \<forall>v. snd p = Some v \<longrightarrow> \<not> nullish v)
           (training_fields F raw provider diag proc loc)"
  using assms
  by (auto simp: training_fields_def js_or_not_nullish coalesce_not_nullish nullish_def[of "JStr _"]
      dest: toNum_not_nullish bind_toNum_not_nullish or_else_js_or_not_nullish)

lemma normalize_Some:
  assumes "normalizeToTraining F raw = Some rec"
  obtains provider diag proc loc where
    "or_else (get_field raw ''Provider'') (map_option JStr (trim F (get_field raw ''provider_id''))) = Some provider"
    "or_else (get_field raw ''ClmDiagnosisCode_1'') (map_option JStr (onlyICD F (get_field raw ''diagnosis_code''))) = Some diag"
    "or_else (get_field raw ''ClmProcedureCode_1'') (map_option JStr (onlyCPT F (get_field raw ''procedure_code''))) = Some proc"
    "or_else (get_field raw ''DiagnosisGroupCode'') (map_option JStr (trim F (get_field raw ''service_location''))) = Some loc"
    "object_literal (training_fields F raw provider diag proc loc) = Some rec"
  using assms by (auto simp: normalizeToTraining_def split: if_splits bind_splits)

lemma normalize_defined:
  assumes "normalizeToTraining F raw = Some rec"
  shows "map fst rec = canonical_fields \<and> list_all (\<lambda>p. \<not> nullish (snd p)) rec"
proof -
  from assms obtain provider diag proc loc where
    d: "or_else (get_field raw ''ClmDiagnosisCode_1'') (map_option JStr (onlyICD F (get_field raw ''diagnosis_code''))) = Some diag"
    and p: "or_else (get_field raw ''ClmProcedureCode_1'') (map_option JStr (onlyCPT F (get_field raw ''procedure_code''))) = Some proc"
    and o: "object_literal (training_fields F raw provider diag proc loc) = Some rec"
    by (rule normalize_Some)
  from object_literal_keys[OF o] have "map fst rec = canonical_fields"
    by (simp add: training_fields_keys)
  moreover from object_literal_values[OF o training_fields_defined]
    or_else_JStr_not_nullish[OF d] or_else_JStr_not_nullish[OF p]
  have "list_all (\<lambda>p. \<not> nullish (snd p)) rec" by blast
  ultimately show ?thesis by simp
qed


lemma normalized_get:
  assumes "object_literal fs = Some rec" "map_of fs f = Some e" "e = Some v"
  shows "obj_get rec f = v"
  using object_literal_lookup[OF assms(1), of f] assms(2,3) by (simp add: obj_get_def)

lemma training_fields_lookup:
  shows "map_of (training_fields F raw provider diag proc loc) ''Provider'' =
      Some (Some (js_or provider (JStr ''Unknown'')))"
    and "map_of (training_fields F raw provider diag proc loc) ''InscClaimAmtReimbursed'' =
      Some (Option.bind (or_else (get_field raw ''InscClaimAmtReimbursed'') (map_option (\<lambda>s. JStr (filter (\<lambda>c. is_digit c \<or> c = CHR ''.'') s)) (to_string F (coalesce (get_field raw ''claim_amount'') (JNum (Fin 0)))))) (toNum F))"
    and "map_of (training_fields F raw provider diag proc loc) ''AttendingPhysician'' =
      Some (or_else (get_field raw ''AttendingPhysician'') (map_option (\<lambda>s. js_or (JStr s) (JStr ''Unknown'')) (trim F (get_field raw ''referring_physician''))))"
    and "map_of (training_fields F raw provider diag proc loc) ''OperatingPhysician'' =
      Some (Some (coalesce (get_field raw ''OperatingPhysician'') (JStr ''Unknown'')))"
    and "map_of (training_fields F raw provider diag proc loc) ''OtherPhysician'' =
      Some (Some (coalesce (get_field raw ''OtherPhysician'') (JStr ''Unknown'')))"
    and "map_of (training_fields F raw provider diag proc loc) ''ClmAdmitDiagnosisCode'' =
      Some (Some (coalesce (get_field raw ''ClmAdmitDiagnosisCode'') diag))"
    and "map_of (training_fields F raw provider diag proc loc) ''DeductibleAmtPaid'' =
      Some (toNum F (coalesce (coalesce (get_field raw ''DeductibleAmtPaid'') (get_field raw ''deductible_amount'')) (JNum (Fin 0))))"
    and "map_of (training_fields F raw provider diag proc loc) ''DiagnosisGroupCode'' =
      Some (Some (js_or loc (JStr ''Unknown'')))"
    and "map_of (training_fields F raw provider diag proc loc) ''ClmDiagnosisCode_1'' =
      Some (Some diag)"
    and "map_of (training_fields F raw provider diag proc loc) ''ClmDiagnosisCode_2'' =
      Some (Some (coalesce (get_field raw ''ClmDiagnosisCode_2'') (JStr ''Unknown'')))"
    and "map_of (training_fields F raw provider diag proc loc) ''ClmDiagnosisCode_3'' =
      Some (Some (coalesce (get_field raw ''ClmDiagnosisCode_3'') (JStr ''Unknown'')))"
    and "map_of (training_fields F raw provider diag proc loc) ''ClmDiagnosisCode_4'' =
      Some (Some (coalesce (get_field raw ''ClmDiagnosisCode_4'') (JStr ''Unknown'')))"
    and "map_of (training_fields F raw provider diag proc loc) ''ClmDiagnosisCode_5'' =
      Some (Some (coalesce (get_field raw ''ClmDiagnosisCode_5'') (JStr ''Unknown'')))"
    and "map_of (training_fields F raw provider diag proc loc) ''ClmDiagnosisCode_6'' =
      Some (Some (coalesce (get_field raw ''ClmDiagnosisCode_6'') (JStr ''Unknown'')))"
    and "map_of (training_fields F raw provider diag proc loc) ''ClmDiagnosisCode_7'' =
      Some (Some (coalesce (get_field raw ''ClmDiagnosisCode_7'') (JStr ''Unknown'')))"
    and "map_of (training_fields F raw provider diag proc loc) ''ClmDiagnosisCode_8'' =
      Some (Some (coalesce (get_field raw ''ClmDiagnosisCode_8'') (JStr ''Unknown'')))"
    and "map_of (training_fields F raw provider diag proc loc) ''ClmDiagnosisCode_9'' =
      Some (Some (coalesce (get_field raw ''ClmDiagnosisCode_9'') (JStr ''Unknown'')))"
    and "map_of (training_fields F raw provider diag proc loc) ''ClmDiagnosisCode_10'' =
      Some (Some (coalesce (get_field raw ''ClmDiagnosisCode_10'') (JStr ''Unknown'')))"
    and "map_of (training_fields F raw provider diag proc loc) ''ClmProcedureCode_1'' =
      Some (Some proc)"
    and "map_of (training_fields F raw provider diag proc loc) ''ClmProcedureCode_2'' =
      Some (Some (coalesce (get_field raw ''ClmProcedureCode_2'') (JStr ''Unknown'')))"
    and "map_of (training_fields F raw provider diag proc loc) ''ClmProcedureCode_3'' =
      Some (Some (coalesce (get_field raw ''ClmProcedureCode_3'') (JStr ''Unknown'')))"
    and "map_of (training_fields F raw provider diag proc loc) ''ClmProcedureCode_4'' =
      Some (Some (coalesce (get_field raw ''ClmProcedureCode_4'') (JStr ''Unknown'')))"
    and "map_of (training_fields F raw provider diag proc loc) ''ClmProcedureCode_5'' =
      Some (Some (coalesce (get_field raw ''ClmProcedureCode_5'') (JStr ''Unknown'')))"
    and "map_of (training_fields F raw provider diag proc loc) ''Gender'' =
      Some (Some (coalesce (get_field raw ''Gender'') (coalesce (get_field raw ''gender'') (JStr ''Unknown''))))"
    and "map_of (training_fields F raw provider diag proc loc) ''Race'' =
      Some (Some (coalesce (get_field raw ''Race'') (coalesce (get_field raw ''race'') (JStr ''Unknown''))))"
    and "map_of (training_fields F raw provider diag proc loc) ''RenalDiseaseIndicator'' =
      Some (Some (coalesce (get_field raw ''RenalDiseaseIndicator'') (coalesce (get_field raw ''renal'') (JStr ''Unknown''))))"
    and "map_of (training_fields F raw provider diag proc loc) ''State'' =
      Some (Some (coalesce (get_field raw ''State'') (coalesce (get_field raw ''state'') (JStr ''Unknown''))))"
    and "map_of (training_fields F raw provider diag proc loc) ''County'' =
      Some (Some (coalesce (get_field raw ''County'') (coalesce (get_field raw ''county'') (JStr ''Unknown''))))"
    and "map_of (training_fields F raw provider diag proc loc) ''NoOfMonths_PartACov'' =
      Some (toNum F (coalesce (get_field raw ''NoOfMonths_PartACov'') (JNum (Fin 12))))"
    and "map_of (training_fields F raw provider diag proc loc) ''NoOfMonths_PartBCov'' =
      Some (toNum F (coalesce (get_field raw ''NoOfMonths_PartBCov'') (JNum (Fin 12))))"
    and "map_of (training_fields F raw provider diag proc loc) ''ChronicCond_Alzheimer'' =
      Some (toNum F (coalesce (get_field raw ''ChronicCond_Alzheimer'') (JNum (Fin 0))))"
    and "map_of (training_fields F raw provider diag proc loc) ''ChronicCond_Heartfailure'' =
      Some (toNum F (coalesce (get_field raw ''ChronicCond_Heartfailure'') (JNum (Fin 0))))"
    and "map_of (training_fields F raw provider diag proc loc) ''ChronicCond_KidneyDisease'' =
      Some (toNum F (coalesce (get_field raw ''ChronicCond_KidneyDisease'') (JNum (Fin 0))))"
    and "map_of (training_fields F raw provider diag proc loc) ''ChronicCond_Cancer'' =
      Some (toNum F (coalesce (get_field raw ''ChronicCond_Cancer'') (JNum (Fin 0))))"
    and "map_of (training_fields F raw provider diag proc loc) ''ChronicCond_ObstrPulmonary'' =
      Some (toNum F (coalesce (get_field raw ''ChronicCond_ObstrPulmonary'') (JNum (Fin 0))))"
    and "map_of (training_fields F raw provider diag proc loc) ''ChronicCond_Depression'' =
      Some (toNum F (coalesce (get_field raw ''ChronicCond_Depression'') (JNum (Fin 0))))"
    and "map_of (training_fields F raw provider diag proc loc) ''ChronicCond_Diabetes'' =
      Some (toNum F (coalesce (get_field raw ''ChronicCond_Diabetes'') (JNum (Fin 0))))"
    and "map_of (training_fields F raw provider diag proc loc) ''ChronicCond_IschemicHeart'' =
      Some (toNum F (coalesce (get_field raw ''ChronicCond_IschemicHeart'') (JNum (Fin 0))))"
    and "map_of (training_fields F raw provider diag proc loc) ''ChronicCond_Osteoporasis'' =
      Some (toNum F (coalesce (get_field raw ''ChronicCond_Osteoporasis'') (JNum (Fin 0))))"
    and "map_of (training_fields F raw provider diag proc loc) ''ChronicCond_rheumatoidarthritis'' =
      Some (toNum F (coalesce (get_field raw ''ChronicCond_rheumatoidarthritis'') (JNum (Fin 0))))"
    and "map_of (training_fields F raw provider diag proc loc) ''ChronicCond_stroke'' =
      Some (toNum F (coalesce (get_field raw ''ChronicCond_stroke'') (JNum (Fin 0))))"
    and "map_of (training_fields F raw provider diag proc loc) ''IPAnnualReimbursementAmt'' =
      Some (toNum F (coalesce (get_field raw ''IPAnnualReimbursementAmt'') (JNum (Fin 0))))"
    and "map_of (training_fields F raw provider diag proc loc) ''IPAnnualDeductibleAmt'' =
      Some (toNum F (coalesce (get_field raw ''IPAnnualDeductibleAmt'') (JNum (Fin 0))))"
    and "map_of (training_fields F raw provider diag proc loc) ''OPAnnualReimbursementAmt'' =
      Some (toNum F (coalesce (get_field raw ''OPAnnualReimbursementAmt'') (JNum (Fin 0))))"
    and "map_of (training_fields F raw provider diag proc loc) ''OPAnnualDeductibleAmt'' =
      Some (toNum F (coalesce (get_field raw ''OPAnnualDeductibleAmt'') (JNum (Fin 0))))"
    and "map_of (training_fields F raw provider diag proc loc) ''AgeAtClaim'' =
      Some (toNum F (coalesce (coalesce (get_field raw ''AgeAtClaim'') (get_field raw ''patient_age'')) (JNum (Fin 0))))"
    and "map_of (training_fields F raw provider diag proc loc) ''ClaimDuration'' =
      Some (Option.bind (or_else (get_field raw ''ClaimDuration'') (map_option (\<lambda>n. JNum (math_max 1 n)) (to_number F (coalesce (get_field raw ''service_frequency'') (JNum (Fin 1)))))) (toNum F))"
    and "map_of (training_fields F raw provider diag proc loc) ''ClaimsPerProvider'' =
      Some (toNum F (coalesce (get_field raw ''ClaimsPerProvider'') (JNum (Fin 1))))"
    and "map_of (training_fields F raw provider diag proc loc) ''ClaimsPerBene'' =
      Some (toNum F (coalesce (get_field raw ''ClaimsPerBene'') (JNum (Fin 1))))"
  by (simp_all only: training_fields_def map_of.simps fun_upd_apply fst_conv snd_conv
      list.inject list.distinct char.inject simp_thms if_True if_False)

lemma missing_cases:
  "missing e v \<Longrightarrow> (nullish v \<Longrightarrow> P) \<Longrightarrow> (e \<Longrightarrow> v = JStr [] \<Longrightarrow> P) \<Longrightarrow> P"
  by (auto simp: missing_def)

lemma toNum_const: "toNum F (JNum (Fin c)) = Some (JNum (Fin c))"
  by (simp add: toNum_def isFiniteNum_def)

lemma toNum_empty: "toNum F (JStr []) = Some (JNum (Fin 0))"
  by (simp add: toNum_def isFiniteNum_def string_to_number_def strip_def)

lemma toNum_zero_string: "toNum F (JStr ''0'') = Some (JNum (Fin 0))"
  by (simp add: js_eval)

lemma toNum_default:
  "missing e v \<Longrightarrow> (e \<Longrightarrow> c = 0) \<Longrightarrow> toNum F (coalesce v (JNum (Fin c))) = Some (JNum (Fin c))"
  by (erule missing_cases) (auto simp: coalesce_def toNum_const toNum_empty nullish_def)

lemma toNum_default2:
  "missing True a \<Longrightarrow> missing True b \<Longrightarrow>
   toNum F (coalesce (coalesce a b) (JNum (Fin 0))) = Some (JNum (Fin 0))"
  by (erule missing_cases; erule missing_cases)
     (auto simp: coalesce_def toNum_const toNum_empty nullish_def)

lemma trim_missing: "missing e v \<Longrightarrow> trim F v = Some []"
  by (erule missing_cases) (auto simp: trim_def coalesce_def strip_def nullish_def)

lemma const_default:
  assumes "or_else a (map_option JStr (trim F b)) = Some x" "missing True a" "missing True b"
  shows "js_or x (JStr ''Unknown'') = JStr ''Unknown''"
  using assms(2)
proof (rule missing_cases)
  assume "nullish a"
  with assms(1) trim_missing[OF assms(3), of F] show ?thesis
    by (auto simp: or_else_def js_or_def)
next
  assume "a = JStr []"
  with assms(1) show ?thesis by (auto simp: or_else_def js_or_def nullish_def)
qed

lemma amount_default:
  assumes "missing True a" "missing True c"
  shows "Option.bind
          (or_else a
             (map_option (\<lambda>s. JStr (filter (\<lambda>c. is_digit c \<or> c = CHR ''.'') s))
                (to_string F (coalesce c (JNum (Fin 0))))))
          (toNum F) = Some (JNum (Fin 0))"
  using assms(1)
proof (rule missing_cases)
  assume "a = JStr []"
  then show ?thesis by (simp add: or_else_def nullish_def toNum_empty)
next
  assume a: "nullish a"
  from assms(2) show ?thesis
  proof (rule missing_cases)
    assume "nullish c"
    with a show ?thesis
      by (simp add: or_else_def coalesce_def int_to_string_def is_digit_def toNum_zero_string)
  next
    assume "c = JStr []"
    with a show ?thesis by (simp add: or_else_def coalesce_def nullish_def toNum_empty)
  qed
qed

lemma attending_default:
  "nullish a \<Longrightarrow> nullish r \<Longrightarrow>
   or_else a (map_option (\<lambda>s. js_or (JStr s) (JStr ''Unknown'')) (trim F r)) = Some (JStr ''Unknown'')"
  using trim_missing[of False r F] by (simp add: or_else_def missing_def js_or_def)

lemma duration_default:
  "nullish a \<Longrightarrow> nullish s \<Longrightarrow>
   Option.bind
     (or_else a (map_option (\<lambda>n. JNum (math_max 1 n)) (to_number F (coalesce s (JNum (Fin 1))))))
     (toNum F) = Some (JNum (Fin 1))"
  by (simp add: or_else_def coalesce_def toNum_const)

lemma proc_default:
  assumes "or_else a (map_option JStr (onlyCPT F p)) = Some x" "nullish a" "nullish p"
  shows "x = JStr ''00000''"
proof -
  have "trim F p = Some []" using assms(3) by (simp add: trim_missing[of False] missing_def)
  then have "onlyCPT F p = Some ''00000''"
    by (simp add: onlyCPT_def cpt_here_def word_boundary_def head_opt_def)
  with assms(1,2) show ?thesis by (simp add: or_else_def)
qed

lemma or_else_nullish: "nullish a \<Longrightarrow> or_else a e = e"
  by (simp add: or_else_def)

lemma trim_nullish: "nullish v \<Longrightarrow> trim F v = Some []"
  using trim_missing[of False v F] by (simp add: missing_def)

lemma js_or_empty: "js_or (JStr []) d = d"
  by (simp add: js_or_def)

lemma coalesce_default: "nullish v \<Longrightarrow> coalesce v d = d"
  by (simp add: coalesce_def)

lemma normalize_defaults:
  assumes "normalizeToTraining F raw = Some rec"
  shows "list_all (defaults_hold raw rec) field_defaults"
proof -
  from assms obtain provider diag proc loc where
    pv: "or_else (get_field raw ''Provider'') (map_option JStr (trim F (get_field raw ''provider_id''))) = Some provider"
    and pc: "or_else (get_field raw ''ClmProcedureCode_1'') (map_option JStr (onlyCPT F (get_field raw ''procedure_code''))) = Some proc"
    and lc: "or_else (get_field raw ''DiagnosisGroupCode'') (map_option JStr (trim F (get_field raw ''service_location''))) = Some loc"
    and o: "object_literal (training_fields F raw provider diag proc loc) = Some rec"
    by (rule normalize_Some)
  show ?thesis
    unfolding field_defaults_def defaults_hold_def
    by (simp only: list.pred_inject fst_conv snd_conv simp_thms; intro conjI impI; (elim conjE)?;
        rule normalized_get[OF o], rule training_fields_lookup,
        simp add: toNum_default toNum_default2 amount_default attending_default duration_default
          coalesce_default toNum_const or_else_nullish trim_nullish js_or_empty const_default[OF pv] const_default[OF lc]
          proc_default[OF pc] missing_def[of False])
qed

text \<open>The empty record, normalized by v2.\<close>

lemma normalize_empty_record:
  "normalizeToTraining F (JObj []) = Some
     [(''Provider'', JStr ''Unknown''),
      (''InscClaimAmtReimbursed'', JNum (Fin 0)),
      (''AttendingPhysician'', JStr ''Unknown''),
      (''OperatingPhysician'', JStr ''Unknown''),
      (''OtherPhysician'', JStr ''Unknown''),
      (''ClmAdmitDiagnosisCode'', JStr ''UNKNOWN''),
      (''DeductibleAmtPaid'', JNum (Fin 0)),
      (''DiagnosisGroupCode'', JStr ''Unknown''),
      (''ClmDiagnosisCode_1'', JStr ''UNKNOWN''),
      (''ClmDiagnosisCode_2'', JStr ''Unknown''),
      (''ClmDiagnosisCode_3'', JStr ''Unknown''),
      (''ClmDiagnosisCode_4'', JStr ''Unknown''),
      (''ClmDiagnosisCode_5'', JStr ''Unknown''),
      (''ClmDiagnosisCode_6'', JStr ''Unknown''),
      (''ClmDiagnosisCode_7'', JStr ''Unknown''),
      (''ClmDiagnosisCode_8'', JStr ''Unknown''),
      (''ClmDiagnosisCode_9'', JStr ''Unknown''),
      (''ClmDiagnosisCode_10'', JStr ''Unknown''),
      (''ClmProcedureCode_1'', JStr ''00000''),
      (''ClmProcedureCode_2'', JStr ''Unknown''),
      (''ClmProcedureCode_3'', JStr ''Unknown''),
      (''ClmProcedureCode_4'', JStr ''Unknown''),
      (''ClmProcedureCode_5'', JStr ''Unknown''),
      (''Gender'', JStr ''Unknown''),
      (''Race'', JStr ''Unknown''),
      (''RenalDiseaseIndicator'', JStr ''Unknown''),
      (''State'', JStr ''Unknown''),
      (''County'', JStr ''Unknown''),
      (''NoOfMonths_PartACov'', JNum (Fin 12)),
      (''NoOfMonths_PartBCov'', JNum (Fin 12)),
      (''ChronicCond_Alzheimer'', JNum (Fin 0)),
      (''ChronicCond_Heartfailure'', JNum (Fin 0)),
      (''ChronicCond_KidneyDisease'', JNum (Fin 0)),
      (''ChronicCond_Cancer'', JNum (Fin 0)),
      (''ChronicCond_ObstrPulmonary'', JNum (Fin 0)),
      (''ChronicCond_Depression'', JNum (Fin 0)),
      (''ChronicCond_Diabetes'', JNum (Fin 0)),
      (''ChronicCond_IschemicHeart'', JNum (Fin 0)),
      (''ChronicCond_Osteoporasis'', JNum (Fin 0)),
      (''ChronicCond_rheumatoidarthritis'', JNum (Fin 0)),
      (''ChronicCond_stroke'', JNum (Fin 0)),
      (''IPAnnualReimbursementAmt'', JNum (Fin 0)),
      (''IPAnnualDeductibleAmt'', JNum (Fin 0)),
      (''OPAnnualReimbursementAmt'', JNum (Fin 0)),
      (''OPAnnualDeductibleAmt'', JNum (Fin 0)),
      (''AgeAtClaim'', JNum (Fin 0)),
      (''ClaimDuration'', JNum (Fin 1)),
      (''ClaimsPerProvider'', JNum (Fin 1)),
      (''ClaimsPerBene'', JNum (Fin 1))]"
  by (simp add: js_eval)

text \<open>
  C7, as the program has it. \<^verbatim>\<open>normalizeToTraining\<close> (v2) returns for every plain record.
  Whenever it returns, the result has exactly the canonical fields, none of them null or
  undefined, and every field of the table above whose sources are missing has its
  default: 12 for the coverage months, 0 for the chronic-condition flags and the
  amounts, 1 for the duration and the two claim counts, "00000" for the first procedure
  code, "Unknown" for the other identity and code fields.
\<close>

theorem normalize_defaults_hold:
  "(plain_record raw \<longrightarrow> normalizeToTraining F raw \<noteq> None)
   \<and> (normalizeToTraining F raw = Some rec \<longrightarrow>
        map fst rec = canonical_fields
        \<and> list_all (\<lambda>p. \<not> nullish (snd p)) rec
        \<and> list_all (defaults_hold raw rec) field_defaults)"
proof (intro conjI impI)
  assume "plain_record raw"
  from normalize_plain[OF this, of F] show "normalizeToTraining F raw \<noteq> None" by auto
next
  assume a: "normalizeToTraining F raw = Some rec"
  from normalize_defined[OF a] show "map fst rec = canonical_fields" by simp
  from normalize_defined[OF a] show "list_all (\<lambda>p. \<not> nullish (snd p)) rec" by simp
  from normalize_defaults[OF a] show "list_all (defaults_hold raw rec) field_defaults" .
qed

theorem normalize_defaults_hold_witness:
  "plain_record (JObj [(''gender'', JStr ''F'')])
   \<and> normalizeToTraining no_fmt (JObj [(''gender'', JStr ''F'')]) \<noteq> None
   \<and> map fst (the (normalizeToTraining no_fmt (JObj [(''gender'', JStr ''F'')]))) = canonical_fields
   \<and> nullish (get_field (JObj [(''gender'', JStr ''F'')]) ''NoOfMonths_PartACov'')
   \<and> obj_get (the (normalizeToTraining no_fmt (JObj [(''gender'', JStr ''F'')]))) ''NoOfMonths_PartACov''
       = JNum (Fin 12)
   \<and> nullish (get_field (JObj [(''gender'', JStr ''F'')]) ''ChronicCond_Diabetes'')
   \<and> obj_get (the (normalizeToTraining no_fmt (JObj [(''gender'', JStr ''F'')]))) ''ChronicCond_Diabetes''
       = JNum (Fin 0)"
proof -
  let ?raw = "JObj [(''gender'', JStr ''F'')]"
  let ?rec = "the (normalizeToTraining no_fmt ?raw)"
  have p: "plain_record ?raw" by (simp add: plain_record_def)
  have n: "normalizeToTraining no_fmt ?raw \<noteq> None"
    using normalize_defaults_hold[of ?raw no_fmt ?rec] p by blast
  then have s: "normalizeToTraining no_fmt ?raw = Some ?rec" by simp
  have k: "map fst ?rec = canonical_fields"
    and d: "list_all (defaults_hold ?raw ?rec) field_defaults"
    using normalize_defaults_hold[of ?raw no_fmt ?rec] s by blast+
  have m: "nullish (get_field ?raw ''NoOfMonths_PartACov'')"
    "nullish (get_field ?raw ''ChronicCond_Diabetes'')"
    by (simp_all add: obj_get_def object_prototype_keys_def nullish_def)
  have "defaults_hold ?raw ?rec (''NoOfMonths_PartACov'', [''NoOfMonths_PartACov''], False, JNum (Fin 12))"
    "defaults_hold ?raw ?rec (''ChronicCond_Diabetes'', [''ChronicCond_Diabetes''], True, JNum (Fin 0))"
    using d unfolding list_all_iff field_defaults_def by (simp_all only: list.set insert_iff simp_thms)
  with m have "obj_get ?rec ''NoOfMonths_PartACov'' = JNum (Fin 12)"
    "obj_get ?rec ''ChronicCond_Diabetes'' = JNum (Fin 0)"
    by (simp_all add: defaults_hold_def missing_def)
  with p n k m show ?thesis by simp
qed

text \<open>
  C7 as stated fails in three places: the first procedure code defaults to "00000", not
  "Unknown"; an empty string for a coverage-month count gives 0, not 12; and a field
  value with a \<^verbatim>\<open>toString\<close> property of its own makes the call raise.
\<close>

lemma object_literal_entries:
  "object_literal ps = Some r \<Longrightarrow> (k, e) \<in> set ps \<Longrightarrow> e \<noteq> None"
  by (induction ps arbitrary: r) (auto split: bind_splits)

lemma normalize_field:
  assumes "normalizeToTraining F raw = Some rec"
  obtains provider diag proc loc where
    "\<And>f e. map_of (training_fields F raw provider diag proc loc) f = Some e \<Longrightarrow> e = Some (obj_get rec f)"
proof -
  from assms obtain provider diag proc loc where
    o: "object_literal (training_fields F raw provider diag proc loc) = Some rec"
    by (rule normalize_Some)
  have "e = Some (obj_get rec f)"
    if "map_of (training_fields F raw provider diag proc loc) f = Some e" for f e
    using object_literal_lookup[OF o, of f] that object_literal_entries[OF o map_of_SomeD[OF that]]
    by (cases e) (simp_all add: obj_get_def)
  then show ?thesis by (rule that)
qed

theorem normalize_defaults_counterexample:
  "map_option (\<lambda>rec. obj_get rec ''ClmProcedureCode_1'') (normalizeToTraining no_fmt (JObj []))
     = Some (JStr ''00000'')
   \<and> map_option (\<lambda>rec. obj_get rec ''NoOfMonths_PartACov'')
       (normalizeToTraining no_fmt (JObj [(''NoOfMonths_PartACov'', JStr [])]))
     = Some (JNum (Fin 0))
   \<and> normalizeToTraining no_fmt (JObj [(''provider_id'', JObj [(''toString'', JNum (Fin 1))])]) = None"
proof (intro conjI)
  show "map_option (\<lambda>rec. obj_get rec ''ClmProcedureCode_1'') (normalizeToTraining no_fmt (JObj []))
     = Some (JStr ''00000'')"
    by (simp only: normalize_empty_record option.map obj_get_def map_of.simps fun_upd_apply
        fst_conv snd_conv list.inject list.distinct char.inject simp_thms if_True if_False option.case)
next
  let ?raw = "JObj [(''NoOfMonths_PartACov'', JStr [])]"
  have "plain_record ?raw" by (simp add: plain_record_def)
  from normalize_plain[OF this, of no_fmt] obtain rec where
    r: "normalizeToTraining no_fmt ?raw = Some rec" by blast
  from normalize_field[OF r] obtain provider diag proc loc where
    f: "\<And>f e. map_of (training_fields no_fmt ?raw provider diag proc loc) f = Some e \<Longrightarrow>
          e = Some (obj_get rec f)" by blast
  from f[OF training_fields_lookup(29)]
  have "obj_get rec ''NoOfMonths_PartACov'' = JNum (Fin 0)"
    by (simp add: obj_get_def coalesce_def nullish_def toNum_empty)
  with r show "map_option (\<lambda>rec. obj_get rec ''NoOfMonths_PartACov'') (normalizeToTraining no_fmt ?raw)
     = Some (JNum (Fin 0))" by simp
next
  show "normalizeToTraining no_fmt (JObj [(''provider_id'', JObj [(''toString'', JNum (Fin 1))])]) = None"
    by (simp add: normalizeToTraining_def or_else_def trim_def coalesce_def nullish_def obj_get_def
        object_prototype_keys_def hasOwnProperty_def)
qed

subsection \<open>The entries of a vector\<close>







lemma scalable_reals:
  "scalable m s \<Longrightarrow> \<exists>a c. m = JNum (Fin a) \<and> s = JNum (Fin c) \<and> c \<noteq> 0"
  by (cases m rule: number_isFinite.cases; cases s rule: number_isFinite.cases)
     (auto simp: scalable_def)










subsection \<open>The three encode-and-scale cores\<close>

text \<open>v1 against v2: they differ in the \<^verbatim>\<open>__UNK__\<close> step only.\<close>

lemma label_map_cases:
  assumes "label_map b col = Some e"
  obtains "map_of (label_encoders b) col = Some e"
  | "col \<in> set object_prototype_keys" "e = \<lparr>mapping = None, unknown_index = None\<rparr>"
  using assms by (auto simp: label_map_def split: option.splits if_splits)

lemma sentinel_free_label_map:
  assumes "sentinel_free b" "label_map b col = Some e"
  shows "declared_unknown e \<noteq> None \<or> \<not> hasOwnProperty (mapping_of e) ''__UNK__''"
  using assms(2)
proof (cases rule: label_map_cases)
  case 1
  then have "(col, e) \<in> set (label_encoders b)" by (rule map_of_SomeD)
  with assms(1) show ?thesis by (auto simp: sentinel_free_def list_all_iff)
next
  case 2
  then show ?thesis by (simp add: mapping_of_def hasOwnProperty_def)
qed

lemma encodeCategorical_v1_eq:
  assumes "sentinel_free b"
  shows "encodeCategorical_v1 F b col v = encodeCategorical F b col v"
proof (cases "label_map b col")
  case None
  then show ?thesis by (simp add: encodeCategorical_v1_def encodeCategorical_def)
next
  case (Some e)
  have unk: "(case unknown_index e of Some u \<Rightarrow> coalesce u JNull | None \<Rightarrow> JNull)
           = (case declared_unknown e of Some u \<Rightarrow> u | None \<Rightarrow> JNull)"
    by (auto simp: declared_unknown_def coalesce_def nullish_def split: option.splits)
  have dn: "declared_unknown e = Some u \<Longrightarrow> u \<noteq> JNull \<and> u \<noteq> JUndefined" for u
    by (auto simp: declared_unknown_def nullish_def split: option.splits if_splits)
  from sentinel_free_label_map[OF assms Some] dn show ?thesis
    by (cases "declared_unknown e")
       (auto simp: encodeCategorical_v1_def encodeCategorical_def Some Let_def unk
          mapping_of_def[symmetric] intro!: arg_cong[where f = "Option.bind _"])
qed

lemma encode_row_v1_eq:
  assumes "sentinel_free b"
  shows "encode_row_v1 F b (JObj rec) cols = encode_row F b rec cols"
  by (induction cols) (simp_all add: encodeCategorical_v1_eq[OF assms] opt_get_def nullish_def)

lemma transformOne_v1_eq:
  assumes "sentinel_free b"
  shows "transformOne_v1 F b (JObj rec) = encode_scale F b rec"
  by (simp add: transformOne_v1_def encode_scale_def encode_row_v1_eq[OF assms])

text \<open>
  v2 against transformer.js, position by position: a row that passes the guard of
  \<^verbatim>\<open>buildVector\<close> is the row v2 computes.
\<close>

lemma build_row_nth:
  "build_row F b named idx cols = Some r \<Longrightarrow>
   length r = length cols \<and>
   (\<forall>k<length cols.
      (if (case label_map b (cols ! k) of Some enc \<Rightarrow> mapping enc \<noteq> None | None \<Rightarrow> False)
       then encode F b (cols ! k) (obj_get named (cols ! k))
       else scaleByIndex F b (idx + k) (obj_get named (cols ! k))) = Some (r ! k))"
proof (induction cols arbitrary: r idx)
  case Nil
  then show ?case by simp
next
  case (Cons col cols)
  then obtain v vs where
    v: "(if (case label_map b col of Some enc \<Rightarrow> mapping enc \<noteq> None | None \<Rightarrow> False)
         then encode F b col (obj_get named col)
         else scaleByIndex F b idx (obj_get named col)) = Some v"
    and vs: "build_row F b named (Suc idx) cols = Some vs" and r: "r = v # vs"
    by (auto split: bind_splits)
  from Cons.IH[OF vs] have len: "length vs = length cols"
    and ih: "\<And>k. k < length cols \<Longrightarrow>
      (if (case label_map b (cols ! k) of Some enc \<Rightarrow> mapping enc \<noteq> None | None \<Rightarrow> False)
       then encode F b (cols ! k) (obj_get named (cols ! k))
       else scaleByIndex F b (Suc idx + k) (obj_get named (cols ! k))) = Some (vs ! k)"
    by auto
  show ?case
  proof (intro conjI allI impI)
    show "length r = length (col # cols)" using len r by simp
    fix k assume "k < length (col # cols)"
    then show "(if (case label_map b ((col # cols) ! k) of Some enc \<Rightarrow> mapping enc \<noteq> None | None \<Rightarrow> False)
       then encode F b ((col # cols) ! k) (obj_get named ((col # cols) ! k))
       else scaleByIndex F b (idx + k) (obj_get named ((col # cols) ! k))) = Some (r ! k)"
    proof (cases k)
      case 0
      with v r show ?thesis by (auto split: if_splits)
    next
      case (Suc j)
      assume "k < length (col # cols)"
      with Suc have "j < length cols" by simp
      from ih[OF this] Suc r show ?thesis by (auto split: if_splits)
    qed
  qed
qed

lemma encode_row_intro:
  "length r = length cols \<Longrightarrow>
   (\<forall>k<length cols.
      (if label_map b (cols ! k) \<noteq> None
       then encodeCategorical F b (cols ! k) (obj_get rec (cols ! k))
       else toNum F (obj_get rec (cols ! k))) = Some (r ! k)) \<Longrightarrow>
   encode_row F b rec cols = Some r"
proof (induction cols arbitrary: r)
  case Nil
  then show ?case by simp
next
  case (Cons col cols)
  from Cons.prems(1) obtain v vs where r: "r = v # vs" and len: "length vs = length cols"
    by (cases r) auto
  from Cons.prems(2)[rule_format, of 0] r
  have v: "(if label_map b col \<noteq> None then encodeCategorical F b col (obj_get rec col)
            else toNum F (obj_get rec col)) = Some v"
    by (auto split: if_splits)
  have "encode_row F b rec cols = Some vs"
  proof (rule Cons.IH[OF len], intro allI impI)
    fix k assume "k < length cols"
    then have "Suc k < length (col # cols)" by simp
    from Cons.prems(2)[rule_format, OF this] r
    show "(if label_map b (cols ! k) \<noteq> None
       then encodeCategorical F b (cols ! k) (obj_get rec (cols ! k))
       else toNum F (obj_get rec (cols ! k))) = Some (vs ! k)"
      by (auto split: if_splits)
  qed
  with v r show ?case by simp
qed

lemma filter_bad_empty:
  "filter_bad F row = Some [] \<Longrightarrow> \<forall>v\<in>set row. is_bad F v = Some False"
  by (induction row) (auto split: bind_splits if_splits)

lemma sanity_guard_Inr:
  assumes "sanity_guard F r = Inr row"
  shows "row = r \<and> (\<forall>v\<in>set r. is_bad F v = Some False)"
  using assms filter_bad_empty[of F r]
  by (auto simp: sanity_guard_def split: option.splits if_splits)

lemma compatible_label_map:
  assumes "tr_compatible b" "col \<in> set (selected_features b)" "label_map b col = Some e"
  shows "mapping e \<noteq> None \<and> declared_unknown e = unknown_index e"
  using assms(3)
proof (cases rule: label_map_cases)
  case 1
  then have "(col, e) \<in> set (label_encoders b)" by (rule map_of_SomeD)
  with assms(1) show ?thesis by (auto simp: tr_compatible_def list_all_iff)
next
  case 2
  with assms(1,2) show ?thesis by (auto simp: tr_compatible_def list_all_iff)
qed

lemma sentinel_not_inherited: "''__UNK__'' \<notin> set object_prototype_keys"
  by (simp add: object_prototype_keys_def)

lemma encode_agree:
  assumes "tr_compatible b" "col \<in> set (selected_features b)" "label_map b col = Some e"
    and "case to_string F v of Some s \<Rightarrow> lookup_key s v \<notin> set object_prototype_keys | None \<Rightarrow> True"
  shows "encodeCategorical F b col v = encode F b col v"
proof -
  from compatible_label_map[OF assms(1-3)] obtain m where
    m: "mapping e = Some m" and du: "declared_unknown e = unknown_index e" by auto
  show ?thesis
  proof (cases "to_string F v")
    case None
    then have "v \<noteq> JNull" "v \<noteq> JUndefined" "v \<noteq> JStr []" by auto
    with None show ?thesis
      by (simp add: encodeCategorical_def encode_def assms(3) m Let_def)
  next
    case (Some s)
    have key: "(if v = JNull \<or> v = JUndefined \<or> v = JStr [] then Some ''Unknown'' else to_string F v)
             = Some (lookup_key s v)"
      using Some by (simp add: lookup_key_def)
    from assms(4) Some have own: "js_in (lookup_key s v) m = hasOwnProperty m (lookup_key s v)"
      by (simp add: js_in_def)
    have unk: "js_in ''__UNK__'' m = hasOwnProperty m ''__UNK__''"
      by (simp add: js_in_def sentinel_not_inherited)
    show ?thesis
    proof (cases "unknown_index e")
      case None
      then show ?thesis
        by (simp add: encodeCategorical_def encode_def assms(3) m Let_def key own unk)
    next
      case (Some u)
      with du have "\<not> nullish u"
        by (auto simp: declared_unknown_def split: if_splits)
      with Some show ?thesis
        by (auto simp: encodeCategorical_def encode_def assms(3) m Let_def key own unk
            coalesce_def nullish_def)
    qed
  qed
qed

lemma not_bad_number: "is_bad F (JNum n) = Some False \<Longrightarrow> \<exists>r. n = Fin r"
  by (cases n) (auto simp: is_bad_number implausible_def)

lemma toNum_of_number: "to_number F v = Some (Fin x) \<Longrightarrow> toNum F v = Some (JNum (Fin x))"
  by (cases v rule: number_isFinite.cases) (auto simp: toNum_def isFiniteNum_def)

lemma numeric_agree_skip:
  assumes "to_number F val = Some x" "is_bad F (js_or (JNum x) (JNum (Fin 0))) = Some False"
  shows "toNum F val = Some (js_or (JNum x) (JNum (Fin 0)))"
proof (cases x)
  case (Fin a)
  with assms(1) have "toNum F val = Some (JNum (Fin a))" by (simp add: toNum_of_number)
  with Fin show ?thesis by (simp add: js_or_def)
next
  case NaN
  with assms(1) have "\<not> isFiniteNum val"
    by (cases val rule: number_isFinite.cases) (auto simp: isFiniteNum_def)
  with NaN assms(1) show ?thesis by (simp add: toNum_def js_or_def)
next
  case PInf
  with assms(2) show ?thesis by (simp add: js_or_def is_bad_number implausible_def)
next
  case NInf
  with assms(2) show ?thesis by (simp add: js_or_def is_bad_number implausible_def)
qed

lemma numeric_agree_scaled:
  assumes "to_number F val = Some x" "c \<noteq> 0"
    and "is_bad F (JNum (num_div (num_sub x (Fin a)) (Fin c))) = Some False"
  shows "\<exists>x0. x = Fin x0 \<and> toNum F val = Some (JNum (Fin x0))"
proof (cases x)
  case (Fin x0)
  with assms(1) show ?thesis by (simp add: toNum_of_number)
next
  case NaN
  with assms(3) show ?thesis by (auto simp: is_bad_number implausible_def split: if_splits)
next
  case PInf
  with assms(3) show ?thesis by (auto simp: is_bad_number implausible_def split: if_splits)
next
  case NInf
  with assms(3) show ?thesis by (auto simp: is_bad_number implausible_def split: if_splits)
qed

lemma skip_iff:
  assumes "tr_compatible b" "k < length (selected_features b)"
  shows "(mean_at b k = JNull \<or> scale_at b k = JNull \<or> scale_at b k = JNum (Fin 0)
          \<or> scale_at b k = JUndefined)
         \<longleftrightarrow> \<not> (scaler_aligned b (length (selected_features b))
                 \<and> scalable (mean_at b k) (scale_at b k))"
proof (cases "scaler_aligned b (length (selected_features b))")
  case False
  with assms(1) have "scaler_mean b = None" "scaler_scale b = None"
    by (auto simp: tr_compatible_def)
  with False show ?thesis by (simp add: scale_at_def array_get_def)
next
  case True
  then obtain ms ss where ms: "scaler_mean b = Some ms" "scaler_scale b = Some ss"
    "length ms = length (selected_features b)" "length ss = length (selected_features b)"
    by (auto simp: scaler_aligned_def split: option.splits)
  with assms have "finite_or_null (ms ! k)" "finite_or_null (ss ! k)"
    by (auto simp: tr_compatible_def list_all_length)
  then have "finite_or_null (mean_at b k)" "finite_or_null (scale_at b k)"
    using ms assms(2) by (simp_all add: mean_at_def scale_at_def array_get_def)
  then show ?thesis using True
    by (cases "mean_at b k" rule: number_isFinite.cases; cases "scale_at b k" rule: number_isFinite.cases)
       (auto simp: finite_or_null_def scalable_def)
qed


lemma position_agree:
  assumes c: "tr_compatible b" and keys: "own_keys_only F b rec"
    and k: "k < length (selected_features b)"
    and w: "(if (case label_map b (selected_features b ! k) of
                   Some enc \<Rightarrow> mapping enc \<noteq> None | None \<Rightarrow> False)
             then encode F b (selected_features b ! k) (obj_get rec (selected_features b ! k))
             else scaleByIndex F b k (obj_get rec (selected_features b ! k))) = Some w"
    and nb: "is_bad F w = Some False"
  shows "\<exists>u. (if label_map b (selected_features b ! k) \<noteq> None
              then encodeCategorical F b (selected_features b ! k) (obj_get rec (selected_features b ! k))
              else toNum F (obj_get rec (selected_features b ! k))) = Some u
            \<and> (scaler_aligned b (length (selected_features b))
                  \<and> scalable (mean_at b k) (scale_at b k) \<longrightarrow> plain u)
            \<and> (if scaler_aligned b (length (selected_features b))
                     \<and> scalable (mean_at b k) (scale_at b k)
                then JNum (num_div (num_sub (number_of F u) (num_of (mean_at b k)))
                                   (num_of (scale_at b k)))
                else u) = w"
proof -
  define col where "col = selected_features b ! k"
  define val where "val = obj_get rec col"
  have colin: "col \<in> set (selected_features b)" using k by (simp add: col_def)
  note w' = w[folded col_def, folded val_def]
  show ?thesis unfolding col_def[symmetric] val_def[symmetric]
  proof (cases "label_map b col")
    case (Some e)
    from compatible_label_map[OF c colin Some] have m: "mapping e \<noteq> None" by simp
    from keys colin Some
    have kc: "case to_string F val of Some s \<Rightarrow> lookup_key s val \<notin> set object_prototype_keys
              | None \<Rightarrow> True"
      unfolding val_def by (auto simp: own_keys_only_def list_all_iff categorical_def)
    from w' Some m have "encode F b col val = Some w" by simp
    with encode_agree[OF c colin Some kc] have e2: "encodeCategorical F b col val = Some w" by simp
    from c k Some have ns: "\<not> scalable (mean_at b k) (scale_at b k)"
      by (auto simp: tr_compatible_def list_all_iff categorical_def col_def)
    from e2 ns Some show "\<exists>u. (if label_map b col \<noteq> None then encodeCategorical F b col val
              else toNum F val) = Some u
            \<and> (scaler_aligned b (length (selected_features b))
                  \<and> scalable (mean_at b k) (scale_at b k) \<longrightarrow> plain u)
            \<and> (if scaler_aligned b (length (selected_features b))
                     \<and> scalable (mean_at b k) (scale_at b k)
                then JNum (num_div (num_sub (number_of F u) (num_of (mean_at b k)))
                                   (num_of (scale_at b k)))
                else u) = w"
      by simp
  next
    case None
    with w' have sb: "scaleByIndex F b k val = Some w" by simp
    show "\<exists>u. (if label_map b col \<noteq> None then encodeCategorical F b col val
              else toNum F val) = Some u
            \<and> (scaler_aligned b (length (selected_features b))
                  \<and> scalable (mean_at b k) (scale_at b k) \<longrightarrow> plain u)
            \<and> (if scaler_aligned b (length (selected_features b))
                     \<and> scalable (mean_at b k) (scale_at b k)
                then JNum (num_div (num_sub (number_of F u) (num_of (mean_at b k)))
                                   (num_of (scale_at b k)))
                else u) = w"
    proof (cases "scaler_aligned b (length (selected_features b))
                  \<and> scalable (mean_at b k) (scale_at b k)")
      case False
      with skip_iff[OF c k]
      have skip: "mean_at b k = JNull \<or> scale_at b k = JNull \<or> scale_at b k = JNum (Fin 0)
                  \<or> scale_at b k = JUndefined" by simp
      with sb obtain x where x: "to_number F val = Some x"
        and wx: "w = js_or (JNum x) (JNum (Fin 0))"
        by (auto simp: scaleByIndex_def Let_def mean_at_def[symmetric] scale_at_def[symmetric]
            split: bind_splits)
      from numeric_agree_skip[OF x nb[unfolded wx]] wx have "toNum F val = Some w" by simp
      with None False show ?thesis by auto
    next
      case True
      with skip_iff[OF c k]
      have nskip: "\<not> (mean_at b k = JNull \<or> scale_at b k = JNull \<or> scale_at b k = JNum (Fin 0)
                  \<or> scale_at b k = JUndefined)" by simp
      from True obtain a d where ms: "mean_at b k = JNum (Fin a)" "scale_at b k = JNum (Fin d)"
        "d \<noteq> 0"
        using scalable_reals by blast
      from sb nskip obtain x where x: "to_number F val = Some x"
        and wx: "w = JNum (num_div (num_sub x (Fin a)) (Fin d))"
        by (auto simp: scaleByIndex_def Let_def mean_at_def[symmetric] scale_at_def[symmetric] ms
            split: bind_splits)
      from numeric_agree_scaled[OF x ms(3) nb[unfolded wx]] obtain x0 where
        x0: "x = Fin x0" "toNum F val = Some (JNum (Fin x0))" by blast
      with None True wx ms show ?thesis by (simp add: number_of_def)
    qed
  qed
qed

lemma tr_agrees:
  assumes c: "tr_compatible b" and keys: "own_keys_only F b rec"
    and r: "encode_scale_tr F b rec = Inr row"
  shows "encode_scale F b rec = Some row"
proof -
  let ?cols = "selected_features b"
  let ?e = "\<lambda>k. if label_map b (?cols ! k) \<noteq> None
              then encodeCategorical F b (?cols ! k) (obj_get rec (?cols ! k))
              else toNum F (obj_get rec (?cols ! k))"
  let ?sc = "\<lambda>k. scaler_aligned b (length ?cols) \<and> scalable (mean_at b k) (scale_at b k)"
  from r obtain r3 where b3: "build_row F b rec 0 ?cols = Some r3"
    and g: "sanity_guard F r3 = Inr row"
    by (auto simp: encode_scale_tr_def split: option.splits)
  from sanity_guard_Inr[OF g] have row: "row = r3"
    and nb: "\<And>v. v \<in> set r3 \<Longrightarrow> is_bad F v = Some False" by auto
  from build_row_nth[OF b3] have len: "length r3 = length ?cols"
    and n3: "\<And>k. k < length ?cols \<Longrightarrow>
      (if (case label_map b (?cols ! k) of Some enc \<Rightarrow> mapping enc \<noteq> None | None \<Rightarrow> False)
       then encode F b (?cols ! k) (obj_get rec (?cols ! k))
       else scaleByIndex F b k (obj_get rec (?cols ! k))) = Some (r3 ! k)"
    by auto
  define r2 where "r2 = map (\<lambda>k. the (?e k)) [0..<length ?cols]"
  have pos: "?e k = Some (r2 ! k) \<and> (?sc k \<longrightarrow> plain (r2 ! k))
             \<and> (if ?sc k
                 then JNum (num_div (num_sub (number_of F (r2 ! k)) (num_of (mean_at b k)))
                                    (num_of (scale_at b k)))
                 else r2 ! k) = r3 ! k"
    if k: "k < length ?cols" for k
  proof -
    from k len have "r3 ! k \<in> set r3" by simp
    from position_agree[OF c keys k n3[OF k] nb[OF this]] obtain u where
      u: "?e k = Some u" "?sc k \<longrightarrow> plain u"
      "(if ?sc k then JNum (num_div (num_sub (number_of F u) (num_of (mean_at b k)))
                                    (num_of (scale_at b k))) else u) = r3 ! k"
      by blast
    have "r2 ! k = the (?e k)" using k by (simp add: r2_def)
    also have "\<dots> = u" by (simp only: u(1) option.sel)
    finally have "r2 ! k = u" .
    with u show ?thesis by (auto split: if_splits)
  qed
  have l2: "length r2 = length ?cols" by (simp add: r2_def)
  have pos1: "?e k = Some (r2 ! k)" if "k < length ?cols" for k
    using pos[OF that] by blast
  have pos2: "plain (r2 ! k)" if "k < length ?cols" "?sc k" for k
    using pos[OF that(1)] that(2) by blast
  have pos3: "JNum (num_div (num_sub (number_of F (r2 ! k)) (num_of (mean_at b k)))
                            (num_of (scale_at b k))) = r3 ! k"
    if "k < length ?cols" "?sc k" for k
    using pos[OF that(1)] that(2) by (simp split: if_splits)
  have pos4: "r2 ! k = r3 ! k" if "k < length ?cols" "\<not> ?sc k" for k
    using pos[OF that(1)] that(2) by (simp split: if_splits)
  have "encode_row F b rec ?cols = Some r2"
    by (rule encode_row_intro[OF l2]) (use pos1 in blast)
  moreover have "apply_scaler F b r2 = Some
      (map (\<lambda>i. if scaler_aligned b (length r2) \<and> scalable (mean_at b i) (scale_at b i)
                then JNum (num_div (num_sub (number_of F (r2 ! i)) (num_of (mean_at b i)))
                                   (num_of (scale_at b i)))
                else r2 ! i) [0..<length r2])"
    by (rule apply_scaler_result) (use pos2 l2 in simp)
  moreover have "map (\<lambda>i. if scaler_aligned b (length r2) \<and> scalable (mean_at b i) (scale_at b i)
                then JNum (num_div (num_sub (number_of F (r2 ! i)) (num_of (mean_at b i)))
                                   (num_of (scale_at b i)))
                else r2 ! i) [0..<length r2] = r3"
  proof (rule nth_equalityI)
    show "length (map (\<lambda>i. if scaler_aligned b (length r2) \<and> scalable (mean_at b i) (scale_at b i)
                then JNum (num_div (num_sub (number_of F (r2 ! i)) (num_of (mean_at b i)))
                                   (num_of (scale_at b i)))
                else r2 ! i) [0..<length r2]) = length r3"
      using l2 len by simp
    fix i
    assume "i < length (map (\<lambda>i. if scaler_aligned b (length r2) \<and> scalable (mean_at b i) (scale_at b i)
                then JNum (num_div (num_sub (number_of F (r2 ! i)) (num_of (mean_at b i)))
                                   (num_of (scale_at b i)))
                else r2 ! i) [0..<length r2])"
    then have i: "i < length ?cols" using l2 by simp
    show "map (\<lambda>i. if scaler_aligned b (length r2) \<and> scalable (mean_at b i) (scale_at b i)
                then JNum (num_div (num_sub (number_of F (r2 ! i)) (num_of (mean_at b i)))
                                   (num_of (scale_at b i)))
                else r2 ! i) [0..<length r2] ! i = r3 ! i"
    proof (cases "?sc i")
      case True
      with pos3[OF i True] i l2 show ?thesis by auto
    next
      case False
      with pos4[OF i False] i l2 show ?thesis by auto
    qed
  qed
  ultimately show ?thesis by (simp add: encode_scale_def row)
qed

text \<open>
  C9, as the program has it. On a record that is already normalized, v1's
  \<^verbatim>\<open>transformOne\<close> and the encode-and-scale step of v2 give the same result whenever no
  encoder reaches the \<^verbatim>\<open>__UNK__\<close> step. Whenever the encode-and-scale step of
  \<^verbatim>\<open>buildVector\<close> (transformer.js) returns a row, v2 returns the same row, provided the
  bundle is one on which transformer.js treats columns as v2 does and no categorical value
  is looked up under an inherited name.
\<close>

theorem cores_agree:
  "(sentinel_free b \<longrightarrow> transformOne_v1 F b (JObj rec) = encode_scale F b rec)
   \<and> (tr_compatible b \<and> own_keys_only F b rec \<and> encode_scale_tr F b rec = Inr row \<longrightarrow>
        encode_scale F b rec = Some row)"
  using transformOne_v1_eq[of b F rec] tr_agrees[of b F rec row] by blast

theorem cores_agree_witness:
  "sentinel_free sample_bundle
   \<and> transformOne_v1 no_fmt sample_bundle
        (JObj [(''Gender'', JStr ''B''), (''AgeAtClaim'', JNum (Fin 14))])
       = Some [JNum (Fin 1), JNum (Fin 2)]
   \<and> tr_compatible sample_bundle
   \<and> own_keys_only no_fmt sample_bundle [(''Gender'', JStr ''B''), (''AgeAtClaim'', JNum (Fin 14))]
   \<and> encode_scale_tr no_fmt sample_bundle [(''Gender'', JStr ''B''), (''AgeAtClaim'', JNum (Fin 14))]
       = Inr [JNum (Fin 1), JNum (Fin 2)]
   \<and> encode_scale no_fmt sample_bundle [(''Gender'', JStr ''B''), (''AgeAtClaim'', JNum (Fin 14))]
       = Some [JNum (Fin 1), JNum (Fin 2)]"
proof -
  let ?rec = "[(''Gender'', JStr ''B''), (''AgeAtClaim'', JNum (Fin 14))]"
  have sf: "sentinel_free sample_bundle"
    by (simp add: sentinel_free_def sample_bundle_def declared_unknown_def nullish_def)
  have tc: "tr_compatible sample_bundle"
    by (simp add: tr_compatible_def sample_bundle_def declared_unknown_def nullish_def
        object_prototype_keys_def scaler_aligned_def finite_or_null_def categorical_def
        label_map_def scalable_def mean_at_def scale_at_def array_get_def upt_rec)
  have ok: "own_keys_only no_fmt sample_bundle ?rec"
    by (simp add: own_keys_only_def sample_bundle_def categorical_def label_map_def
        object_prototype_keys_def obj_get_def lookup_key_def)
  have tr: "encode_scale_tr no_fmt sample_bundle ?rec = Inr [JNum (Fin 1), JNum (Fin 2)]"
    by (simp add: js_eval js_eval_tr)
  from cores_agree[of sample_bundle no_fmt ?rec "[JNum (Fin 1), JNum (Fin 2)]"] sf tc ok tr
  have "transformOne_v1 no_fmt sample_bundle (JObj ?rec) = Some [JNum (Fin 1), JNum (Fin 2)]"
    "encode_scale no_fmt sample_bundle ?rec = Some [JNum (Fin 1), JNum (Fin 2)]"
    by simp_all
  with sf tc ok tr show ?thesis by simp
qed

text \<open>
  C9 as stated fails. With a mapping that has only a \<^verbatim>\<open>__UNK__\<close> entry, v1 encodes an
  unseen value as 0 and v2 as that entry. With a scaler entry on a categorical column, v2
  scales the index and transformer.js does not. With the value "constructor",
  transformer.js finds the inherited member of the mapping and returns it, where v2
  returns the \<^verbatim>\<open>unknown_index\<close>.
\<close>

theorem cores_differ_counterexample:
  "transformOne_v1 no_fmt sentinel_bundle (JObj [(''Gender'', JStr ''X'')]) = Some [JNum (Fin 0)]
   \<and> encode_scale no_fmt sentinel_bundle [(''Gender'', JStr ''X'')] = Some [JNum (Fin 7)]
   \<and> encode_scale no_fmt scaled_index_bundle [(''Gender'', JStr ''B'')] = Some [JNum (Fin 0)]
   \<and> encode_scale_tr no_fmt scaled_index_bundle [(''Gender'', JStr ''B'')] = Inr [JNum (Fin 1)]
   \<and> encode_scale no_fmt sample_bundle
        [(''Gender'', JStr ''constructor''), (''AgeAtClaim'', JNum (Fin 14))]
       = Some [JNum (Fin 2), JNum (Fin 2)]
   \<and> encode_scale_tr no_fmt sample_bundle
        [(''Gender'', JStr ''constructor''), (''AgeAtClaim'', JNum (Fin 14))]
       = Inr [JBuiltin ''constructor'', JNum (Fin 2)]"
  by (simp add: js_eval js_eval_tr js_eval_v1 sentinel_bundle_def scaled_index_bundle_def
      sample_encoder_def)

subsection \<open>transformBatch on an argument that is not an array\<close>

text \<open>
  C10. For every argument that is not an array (a single record object, null and
  undefined among them), \<^verbatim>\<open>transformBatch\<close> raises its "expects an array of objects"
  error and returns nothing; a single record is not wrapped into a batch of one. Both
  revisions of preprocess.js do so.
\<close>

theorem transformBatch_rejects_non_array:
  assumes "\<not> Array_isArray rows"
  shows "transformBatch F b rows = Inl ExpectsArrayOfObjects
       \<and> transformBatch_v1 F b rows = Inl ExpectsArrayOfObjects"
  using assms by (simp add: transformBatch_def transformBatch_v1_def)

theorem transformBatch_rejects_non_array_witness:
  "\<not> Array_isArray (JObj [(''provider_id'', JStr ''P1'')])
   \<and> transformBatch (\<lambda>x. []) \<lparr>selected_features = [''Provider''], label_encoders = [],
        scaler_mean = None, scaler_scale = None\<rparr> (JObj [(''provider_id'', JStr ''P1'')])
     = Inl ExpectsArrayOfObjects
   \<and> transformBatch_v1 (\<lambda>x. []) \<lparr>selected_features = [''Provider''], label_encoders = [],
        scaler_mean = None, scaler_scale = None\<rparr> (JObj [(''provider_id'', JStr ''P1'')])
     = Inl ExpectsArrayOfObjects"
  using transformBatch_rejects_non_array
    [of "JObj [(''provider_id'', JStr ''P1'')]" "\<lambda>x. []"
        "\<lparr>selected_features = [''Provider''], label_encoders = [],
          scaler_mean = None, scaler_scale = None\<rparr>"]
  by simp


end
